theory Spec2Isabelle
  imports Complex_Main
begin

section \<open>Values, exceptions and geometries\<close>

text \<open>
  A decoded JSON document, as \<^verbatim>\<open>json.load\<close> returns it. Numbers are idealised as
  reals. The same type holds the attribute cells of a table row, where \<open>JNull\<close> is
  also the missing value of a cell. An object is an association list with distinct
  keys.
\<close>

datatype json =
    JNull
  | JBool bool
  | JNum real
  | JStr string
  | JArr "json list"
  | JObj "(string \<times> json) list"

text \<open>The exceptions the code can meet; all are subclasses of Python's \<^verbatim>\<open>Exception\<close>.\<close>

datatype exn =
    OSError
  | JSONDecodeError
  | TypeError
  | KeyError
  | AttributeError
  | ValueError
  | GeometryTypeError
  | CRSError
  | DBError

type_synonym point = "real \<times> real"

text \<open>
  The geometries the processing script names (\<^verbatim>\<open>Point\<close>, \<^verbatim>\<open>LineString\<close>,
  \<^verbatim>\<open>MultiLineString\<close>), with planar coordinates.
\<close>

datatype geom =
    Point point
  | LineString "point list"
  | MultiLineString "point list list"

fun seg_length :: "point \<Rightarrow> point \<Rightarrow> real" where
  "seg_length (x1, y1) (x2, y2) = sqrt ((x2 - x1)\<^sup>2 + (y2 - y1)\<^sup>2)"

fun path_length :: "point list \<Rightarrow> real" where
  "path_length (p # q # ps) = seg_length p q + path_length (q # ps)"
| "path_length _ = 0"

text \<open>The \<^verbatim>\<open>.length\<close> property of a geometry: planar length in the units of its coordinates.\<close>

fun geom_length :: "geom \<Rightarrow> real" where
  "geom_length (Point p) = 0"
| "geom_length (LineString ps) = path_length ps"
| "geom_length (MultiLineString ls) = sum_list (map path_length ls)"

section \<open>Tables\<close>

text \<open>
  A row of a GeoDataFrame: its attribute cells in column order and the cell of the
  geometry column, which is a geometry or \<^verbatim>\<open>None\<close>. A GeoDataFrame is its rows and
  the EPSG code of its declared reference system.
\<close>

record row =
  attrs :: "(string \<times> json) list"
  geometry :: "geom option"

record gdf =
  rows :: "row list"
  crs :: nat

text \<open>Assignment to a key of a Python dict: an existing key keeps its place.\<close>

fun dict_set :: "(string \<times> 'v) list \<Rightarrow> string \<Rightarrow> 'v \<Rightarrow> (string \<times> 'v) list" where
  "dict_set [] k v = [(k, v)]"
| "dict_set ((k', v') # d) k v =
     (if k' = k then (k, v) # d else (k', v') # dict_set d k v)"

text \<open>Running a function that may raise over a list: the first exception ends it.\<close>

fun collect :: "('a \<Rightarrow> exn + 'b) \<Rightarrow> 'a list \<Rightarrow> exn + 'b list" where
  "collect f [] = Inr []"
| "collect f (x # xs) =
     (case f x of
        Inl e \<Rightarrow> Inl e
      | Inr y \<Rightarrow> (case collect f xs of Inl e \<Rightarrow> Inl e | Inr ys \<Rightarrow> Inr (y # ys)))"

text \<open>\<^verbatim>\<open>os.path.basename\<close>: what follows the last slash.\<close>

definition basename :: "string \<Rightarrow> string" where
  "basename p = rev (takeWhile (\<lambda>c. c \<noteq> CHR ''/'') (rev p))"

text \<open>\<^verbatim>\<open>os.path.splitext(p)[0]\<close> of a name without slashes: the extension starts at the
  last dot, unless only dots precede it.\<close>

definition splitext_root :: "string \<Rightarrow> string" where
  "splitext_root n =
     (let ext_rev = takeWhile (\<lambda>c. c \<noteq> CHR ''.'') (rev n);
          root = take (length n - length ext_rev - 1) n
      in if length ext_rev = length n \<or> (\<forall>c \<in> set root. c = CHR ''.'') then n else root)"

text \<open>
  The file system: the directories that exist and the files with their contents. A file
  is named by its directory and its name in it (\<^verbatim>\<open>os.path.join\<close>).
\<close>

datatype file_content =
    GeoJSONFile gdf
  | CSVFile "(string \<times> json) list list"

record fs =
  dirs :: "string set"
  files :: "(string \<times> string) \<rightharpoonup> file_content"

section \<open>Messages and the environment\<close>

datatype msg =
    Importing string
  | NoFeaturesFound string
  | ErrorImporting string exn
  | ErrorProcessingFeature nat exn
  | NoValidResults
  | ErrorProcessingFeatures exn
  | SavedTo "string \<times> string"
  | ErrorInPipeline exn
  | ProcessingComplete
  | ProcessingFailed
  | NoDataFound string
  | ConvertedToWGS84
  | DroppedTables
  | CreatedTables
  | TablesInSchema
  | ErrorLoadingData exn
  | ErrorReadingFile exn
  | ErrorNoInput
  | WarnBothInputs
  | InputFileNotFound string
  | InputDirNotFound string
  | NoFilesMatching string string
  | FoundFiles nat
  | ProcessingFile string
  | Inserted int string
  | ErrorForFile string exn
  | Summary nat int

text \<open>A record of the target table: the value assigned to each attribute, if any.\<close>

type_synonym model = "string \<rightharpoonup> json"

text \<open>
  What the code calls and does not define. For the processing script: reading and
  decoding a file, building rows from features, setting up the coordinate
  transformation, reprojecting one geometry between two reference systems, the clock and
  the text form of a geometry; whether making a directory raises, and whether writing a
  file raises and what it then leaves at the path. For the loader: reading a processed
  file, the text form used for the store, whether a record of the class has an
  attribute of a name besides its mapped columns and whether assigning a value to such
  an attribute raises, and whether the engine, the schema statements, the inspector, a
  commit (given the batches committed so far and the pending records), a rollback and
  the closing of the session raise. For the loading script: the file system tests and
  the directory listing. Each may raise where the library can.
\<close>

record env =
  read_json :: "string \<Rightarrow> exn + json"
  from_features :: "json \<Rightarrow> exn + row list"
  osr_setup :: "exn option"
  reproject :: "nat \<Rightarrow> nat \<Rightarrow> geom \<Rightarrow> exn + geom"
  now :: string
  geom_wkt :: "geom \<Rightarrow> string"
  makedirs_err :: "string \<Rightarrow> exn option"
  write_err :: "string \<times> string \<Rightarrow> (exn \<times> file_content option) option"
  read_file :: "string \<Rightarrow> exn + gdf"
  wkt_dumps :: "geom \<Rightarrow> string"
  other_attr :: "string \<Rightarrow> bool"
  setattr_err :: "string \<Rightarrow> json \<Rightarrow> exn option"
  get_engine_err :: "exn option"
  drop_all_err :: "exn option"
  create_all_err :: "exn option"
  inspect_err :: "exn option"
  commit_err :: "model list list \<Rightarrow> model list \<Rightarrow> exn option"
  rollback_err :: "exn option"
  close_err :: "exn option"
  path_exists :: "string \<Rightarrow> bool"
  isdir :: "string \<Rightarrow> bool"
  glob_files :: "string \<Rightarrow> string \<Rightarrow> string list"

section \<open>The feature importer\<close>

fun starts_with :: "string \<Rightarrow> string \<Rightarrow> bool" where
  "starts_with [] s = True"
| "starts_with (c # cs) [] = False"
| "starts_with (c # cs) (d # ds) = (c = d \<and> starts_with cs ds)"

fun contains_str :: "string \<Rightarrow> string \<Rightarrow> bool" where
  "contains_str p [] = (p = [])"
| "contains_str p (d # ds) = (starts_with p (d # ds) \<or> contains_str p ds)"

text \<open>\<^verbatim>\<open>k in data\<close> for a string \<open>k\<close>: key of a dict, element of a list, substring of a
  string; anything else is not iterable.\<close>

fun py_in :: "string \<Rightarrow> json \<Rightarrow> exn + bool" where
  "py_in k (JObj kv) = Inr (k \<in> set (map fst kv))"
| "py_in k (JArr xs) = Inr (JStr k \<in> set xs)"
| "py_in k (JStr s) = Inr (contains_str k s)"
| "py_in k _ = Inl TypeError"

text \<open>\<^verbatim>\<open>data[k]\<close> for a string \<open>k\<close>.\<close>

fun py_getitem :: "json \<Rightarrow> string \<Rightarrow> exn + json" where
  "py_getitem (JObj kv) k = (case map_of kv k of None \<Rightarrow> Inl KeyError | Some v \<Rightarrow> Inr v)"
| "py_getitem _ k = Inl TypeError"

text \<open>\<^verbatim>\<open>'type' in data and data['type'] == t\<close>.\<close>

definition type_is :: "json \<Rightarrow> string \<Rightarrow> exn + bool" where
  "type_is data t =
     (case py_in ''type'' data of
        Inl e \<Rightarrow> Inl e
      | Inr False \<Rightarrow> Inr False
      | Inr True \<Rightarrow>
          (case py_getitem data ''type'' of
             Inl e \<Rightarrow> Inl e
           | Inr v \<Rightarrow> Inr (v = JStr t)))"

fun truthy :: "json \<Rightarrow> bool" where
  "truthy JNull = False"
| "truthy (JBool b) = b"
| "truthy (JNum x) = (x \<noteq> 0)"
| "truthy (JStr s) = (s \<noteq> [])"
| "truthy (JArr xs) = (xs \<noteq> [])"
| "truthy (JObj kv) = (kv \<noteq> [])"

text \<open>The if/elif/else of \<^verbatim>\<open>import_json_data\<close> that picks the features.\<close>

definition select_features :: "json \<Rightarrow> exn + json" where
  "select_features data =
     (case type_is data ''FeatureCollection'' of
        Inl e \<Rightarrow> Inl e
      | Inr True \<Rightarrow> py_getitem data ''features''
      | Inr False \<Rightarrow>
          (case type_is data ''Feature'' of
             Inl e \<Rightarrow> Inl e
           | Inr True \<Rightarrow> Inr (JArr [data])
           | Inr False \<Rightarrow> Inr (case data of JArr xs \<Rightarrow> JArr xs | _ \<Rightarrow> JArr [])))"

text \<open>
  The body of the \<^verbatim>\<open>try\<close> of \<^verbatim>\<open>import_json_data\<close>: the messages printed, and the
  value returned (\<open>None\<close> for Python's \<^verbatim>\<open>None\<close>) or the exception raised.
\<close>

definition import_body :: "env \<Rightarrow> string \<Rightarrow> msg list \<times> (exn + gdf option)" where
  "import_body E file_path =
     (case read_json E file_path of
        Inl e \<Rightarrow> ([Importing file_path], Inl e)
      | Inr data \<Rightarrow>
          (case select_features data of
             Inl e \<Rightarrow> ([Importing file_path], Inl e)
           | Inr features \<Rightarrow>
               if \<not> truthy features
               then ([Importing file_path, NoFeaturesFound file_path], Inr None)
               else (case from_features E features of
                       Inl e \<Rightarrow> ([Importing file_path], Inl e)
                     | Inr rs \<Rightarrow> ([Importing file_path], Inr (Some \<lparr>rows = rs, crs = 27700\<rparr>)))))"

text \<open>\<^verbatim>\<open>import_json_data\<close>: the handler prints the exception and returns \<^verbatim>\<open>None\<close>.\<close>

definition import_json_data :: "env \<Rightarrow> string \<Rightarrow> msg list \<times> (exn + gdf option)" where
  "import_json_data E file_path =
     (case import_body E file_path of
        (msgs, Inl e) \<Rightarrow> (msgs @ [ErrorImporting file_path e], Inr None)
      | (msgs, Inr r) \<Rightarrow> (msgs, Inr r))"

section \<open>The route processor\<close>

text \<open>
  The loop of \<^verbatim>\<open>process_route_features\<close> over the rows, with the position of the
  row: \<^verbatim>\<open>row.geometry.length\<close> raises on \<^verbatim>\<open>None\<close>, the handler prints and goes on.
\<close>

fun route_loop :: "string \<Rightarrow> nat \<Rightarrow> row list \<Rightarrow> msg list \<times> row list" where
  "route_loop file_path idx [] = ([], [])"
| "route_loop file_path idx (r # rs) =
     (let properties = filter (\<lambda>(k, v). k \<noteq> ''geometry'') (attrs r);
          (msgs, results) = route_loop file_path (Suc idx) rs
      in case geometry r of
           None \<Rightarrow> (ErrorProcessingFeature idx AttributeError # msgs, results)
         | Some g \<Rightarrow>
             (let route_length_m = geom_length g;
                  result = \<lparr>attrs = dict_set (dict_set properties
                                ''route_length_m'' (JNum route_length_m))
                                ''source_file'' (JStr (basename file_path)),
                            geometry = Some g\<rparr>
              in (msgs, result # results)))"

text \<open>\<^verbatim>\<open>GeoDataFrame.to_crs\<close>: every geometry of the table is transformed, a missing
  one stays missing, and the table is retagged; a table already in the target system is
  returned as it is.\<close>

fun to_crs_rows :: "(geom \<Rightarrow> exn + geom) \<Rightarrow> row list \<Rightarrow> exn + row list" where
  "to_crs_rows f [] = Inr []"
| "to_crs_rows f (r # rs) =
     (case geometry r of
        None \<Rightarrow> (case to_crs_rows f rs of Inl e \<Rightarrow> Inl e | Inr rs' \<Rightarrow> Inr (r # rs'))
      | Some g \<Rightarrow>
          (case f g of
             Inl e \<Rightarrow> Inl e
           | Inr g' \<Rightarrow>
               (case to_crs_rows f rs of
                  Inl e \<Rightarrow> Inl e
                | Inr rs' \<Rightarrow> Inr (r\<lparr>geometry := Some g'\<rparr> # rs'))))"

definition to_crs :: "env \<Rightarrow> gdf \<Rightarrow> nat \<Rightarrow> exn + gdf" where
  "to_crs E g dst =
     (if crs g = dst then Inr g
      else (case to_crs_rows (reproject E (crs g) dst) (rows g) of
              Inl e \<Rightarrow> Inl e
            | Inr rs \<Rightarrow> Inr \<lparr>rows = rs, crs = dst\<rparr>))"

text \<open>The body of the outer \<^verbatim>\<open>try\<close> of \<^verbatim>\<open>process_route_features\<close>.\<close>

definition process_body :: "env \<Rightarrow> gdf \<Rightarrow> string \<Rightarrow> msg list \<times> (exn + gdf option)" where
  "process_body E g file_path =
     (case osr_setup E of
        Some e \<Rightarrow> ([], Inl e)
      | None \<Rightarrow>
          (let (msgs, results) = route_loop file_path 0 (rows g)
           in if results = [] then (msgs @ [NoValidResults], Inr None)
              else (case to_crs E \<lparr>rows = results, crs = 27700\<rparr> 4326 of
                      Inl e \<Rightarrow> (msgs, Inl e)
                    | Inr result_gdf \<Rightarrow> (msgs, Inr (Some result_gdf)))))"

definition process_route_features :: "env \<Rightarrow> gdf \<Rightarrow> string \<Rightarrow> msg list \<times> (exn + gdf option)" where
  "process_route_features E g file_path =
     (case process_body E g file_path of
        (msgs, Inl e) \<Rightarrow> (msgs @ [ErrorProcessingFeatures e], Inr None)
      | (msgs, Inr r) \<Rightarrow> (msgs, Inr r))"

section \<open>The exporter and the processing script\<close>

text \<open>
  \<^verbatim>\<open>os.makedirs(d, exist_ok=True)\<close> makes the directory or raises. Writing a file
  (\<^verbatim>\<open>to_file\<close>, \<^verbatim>\<open>to_csv\<close>) needs its directory; it may raise for other reasons
  too, and then leaves at the path what the environment says.
\<close>

definition makedirs :: "env \<Rightarrow> fs \<Rightarrow> string \<Rightarrow> exn option \<times> fs" where
  "makedirs E F d =
     (case makedirs_err E d of
        Some e \<Rightarrow> (Some e, F)
      | None \<Rightarrow> (None, F\<lparr>dirs := insert d (dirs F)\<rparr>))"

definition write_file ::
  "env \<Rightarrow> fs \<Rightarrow> string \<times> string \<Rightarrow> file_content \<Rightarrow> exn option \<times> fs" where
  "write_file E F path content =
     (if fst path \<notin> dirs F then (Some OSError, F)
      else (case write_err E path of
              Some (e, left) \<Rightarrow> (Some e, F\<lparr>files := (files F)(path := left)\<rparr>)
            | None \<Rightarrow> (None, F\<lparr>files := (files F)(path \<mapsto> content)\<rparr>)))"

text \<open>The rows of the delimited text: the column \<^verbatim>\<open>geometry_wkt\<close> is set from
  \<^verbatim>\<open>geom.wkt\<close>, which raises on \<^verbatim>\<open>None\<close>; the geometry column is dropped.\<close>

fun csv_rows :: "env \<Rightarrow> row list \<Rightarrow> exn + (string \<times> json) list list" where
  "csv_rows E [] = Inr []"
| "csv_rows E (r # rs) =
     (case geometry r of
        None \<Rightarrow> Inl AttributeError
      | Some g \<Rightarrow>
          (case csv_rows E rs of
             Inl e \<Rightarrow> Inl e
           | Inr t \<Rightarrow> Inr (dict_set (attrs r) ''geometry_wkt'' (JStr (geom_wkt E g)) # t)))"

text \<open>What \<^verbatim>\<open>process_route_json_file\<close> returns when it is not \<^verbatim>\<open>None\<close>.\<close>

datatype pipeline_result =
    OutputFile "string \<times> string"
  | Table gdf

definition pipeline_body ::
  "env \<Rightarrow> string \<Rightarrow> string \<Rightarrow> string \<Rightarrow> fs \<Rightarrow> (msg list \<times> (exn + pipeline_result option)) \<times> fs" where
  "pipeline_body E file_path output_dir output_format F =
     (case import_json_data E file_path of
        (msgs1, Inl e) \<Rightarrow> ((msgs1, Inl e), F)
      | (msgs1, Inr None) \<Rightarrow> ((msgs1, Inr None), F)
      | (msgs1, Inr (Some g)) \<Rightarrow>
          (case process_route_features E g file_path of
             (msgs2, Inl e) \<Rightarrow> ((msgs1 @ msgs2, Inl e), F)
           | (msgs2, Inr None) \<Rightarrow> ((msgs1 @ msgs2, Inr None), F)
           | (msgs2, Inr (Some result_gdf)) \<Rightarrow>
               (let base_name = splitext_root (basename file_path);
                    timestamp = now E
                in if output_format = ''geojson''
                   then (let output_file = (output_dir, base_name @ ''_'' @ timestamp @ ''.geojson'')
                         in case write_file E F output_file (GeoJSONFile result_gdf) of
                              (Some e, F') \<Rightarrow> ((msgs1 @ msgs2, Inl e), F')
                            | (None, F') \<Rightarrow>
                                ((msgs1 @ msgs2 @ [SavedTo output_file],
                                  Inr (Some (OutputFile output_file))), F'))
                   else if output_format = ''csv''
                   then (let output_file = (output_dir, base_name @ ''_'' @ timestamp @ ''.csv'')
                         in case csv_rows E (rows result_gdf) of
                              Inl e \<Rightarrow> ((msgs1 @ msgs2, Inl e), F)
                            | Inr t \<Rightarrow>
                                (case write_file E F output_file (CSVFile t) of
                                   (Some e, F') \<Rightarrow> ((msgs1 @ msgs2, Inl e), F')
                                 | (None, F') \<Rightarrow>
                                     ((msgs1 @ msgs2 @ [SavedTo output_file],
                                       Inr (Some (OutputFile output_file))), F')))
                   else if output_format = ''postgres''
                   then ((msgs1 @ msgs2, Inr (Some (Table result_gdf))), F)
                   else ((msgs1 @ msgs2, Inr None), F))))"

definition process_route_json_file ::
  "env \<Rightarrow> string \<Rightarrow> string \<Rightarrow> string \<Rightarrow> fs \<Rightarrow> (msg list \<times> (exn + pipeline_result option)) \<times> fs" where
  "process_route_json_file E file_path output_dir output_format F =
     (case pipeline_body E file_path output_dir output_format F of
        ((msgs, Inl e), F') \<Rightarrow> ((msgs @ [ErrorInPipeline e], Inr None), F')
      | ((msgs, Inr r), F') \<Rightarrow> ((msgs, Inr r), F'))"

text \<open>\<^verbatim>\<open>main\<close> of the processing script, after the arguments are parsed: the output
  directory is made, then the file is processed. Neither call stands in a \<^verbatim>\<open>try\<close>:
  an exception of either leaves \<^verbatim>\<open>main\<close>.\<close>

definition process_main ::
  "env \<Rightarrow> string \<Rightarrow> string \<Rightarrow> string \<Rightarrow> fs \<Rightarrow> (msg list \<times> (exn + unit)) \<times> fs" where
  "process_main E input_file output_dir format F =
     (case makedirs E F output_dir of
        (Some e, F0) \<Rightarrow> (([], Inl e), F0)
      | (None, F0) \<Rightarrow>
          (case process_route_json_file E input_file output_dir format F0 of
             ((msgs, Inl e), F') \<Rightarrow> ((msgs, Inl e), F')
           | ((msgs, Inr result), F') \<Rightarrow>
               ((msgs @ [if result \<noteq> None then ProcessingComplete else ProcessingFailed],
                 Inr ()), F')))"

section \<open>The database loader\<close>

text \<open>The mapped columns of \<^verbatim>\<open>CyclingRoute\<close>.\<close>

definition CyclingRoute :: "string list" where
  "CyclingRoute =
     [''id'', ''route_id'', ''street'', ''locality'', ''route_type'', ''notes'', ''surface'',
      ''ncn_route'', ''traffic'', ''local_authority'', ''la_s_code'', ''sh_date_uploaded'',
      ''sh_src'', ''sh_src_id'', ''route_length_m'', ''source_file'', ''created_at'',
      ''updated_at'', ''geometry'']"

text \<open>
  \<^verbatim>\<open>hasattr\<close> on a record of the class holds for its mapped columns and for every
  other attribute the record has. \<^verbatim>\<open>setattr\<close> on a mapped column sets its value; on
  another attribute it may raise, and otherwise leaves the columns as they are.
\<close>

definition hasattr :: "env \<Rightarrow> string list \<Rightarrow> string \<Rightarrow> bool" where
  "hasattr E model_class key = (key \<in> set model_class \<or> other_attr E key)"

definition py_setattr :: "env \<Rightarrow> string list \<Rightarrow> model \<Rightarrow> string \<Rightarrow> json \<Rightarrow> exn + model" where
  "py_setattr E model_class m key val =
     (if key \<in> set model_class then Inr (m(key \<mapsto> val))
      else (case setattr_err E key val of Some e \<Rightarrow> Inl e | None \<Rightarrow> Inr m))"

text \<open>The loop over \<^verbatim>\<open>row.items()\<close> in \<^verbatim>\<open>gdf_to_sql_model\<close>. The geometry cell is
  skipped there, so the loop runs over the attribute cells.\<close>

fun set_attributes :: "env \<Rightarrow> string list \<Rightarrow> (string \<times> json) list \<Rightarrow> model \<Rightarrow> exn + model" where
  "set_attributes E model_class [] m = Inr m"
| "set_attributes E model_class ((key, val) # items) m =
     (if key = ''geometry'' then set_attributes E model_class items m
      else if key = ''type'' \<and> hasattr E model_class ''route_type''
      then (case py_setattr E model_class m ''route_type'' val of
              Inl e \<Rightarrow> Inl e
            | Inr m' \<Rightarrow> set_attributes E model_class items m')
      else if hasattr E model_class key
      then (case py_setattr E model_class m key val of
              Inl e \<Rightarrow> Inl e
            | Inr m' \<Rightarrow> set_attributes E model_class items m')
      else set_attributes E model_class items m)"

text \<open>The body of the loop over the rows of a batch: the record of one row, or the
  exception of an assignment.\<close>

definition row_to_model :: "env \<Rightarrow> string list \<Rightarrow> row \<Rightarrow> exn + model" where
  "row_to_model E model_class r =
     (case set_attributes E model_class (attrs r) Map.empty of
        Inl e \<Rightarrow> Inl e
      | Inr m \<Rightarrow>
          (case geometry r of
             None \<Rightarrow> Inr m
           | Some g \<Rightarrow>
               if hasattr E model_class ''geometry''
               then (let wkt_geom = wkt_dumps E g
                     in py_setattr E model_class m ''geometry'' (JStr (''SRID=4326;'' @ wkt_geom)))
               else Inr m))"

text \<open>
  The store and the session on it: the batches committed so far, in order, the records
  added to the session and not yet committed, whether the session is closed, and what
  was printed.
\<close>

record db =
  committed :: "model list list"
  pending :: "model list"
  closed :: bool
  out :: "msg list"

definition pr :: "msg \<Rightarrow> db \<Rightarrow> db" where
  "pr m S = S\<lparr>out := out S @ [m]\<rparr>"

definition add_all :: "model list \<Rightarrow> db \<Rightarrow> db" where
  "add_all ms S = S\<lparr>pending := pending S @ ms\<rparr>"

definition commit :: "env \<Rightarrow> db \<Rightarrow> exn option \<times> db" where
  "commit E S =
     (case commit_err E (committed S) (pending S) of
        Some e \<Rightarrow> (Some e, S)
      | None \<Rightarrow> (None, S\<lparr>committed := committed S @ [pending S], pending := []\<rparr>))"

definition rollback :: "env \<Rightarrow> db \<Rightarrow> exn option \<times> db" where
  "rollback E S =
     (case rollback_err E of
        Some e \<Rightarrow> (Some e, S)
      | None \<Rightarrow> (None, S\<lparr>pending := []\<rparr>))"

definition close_session :: "env \<Rightarrow> db \<Rightarrow> exn option \<times> db" where
  "close_session E S =
     (case close_err E of
        Some e \<Rightarrow> (Some e, S)
      | None \<Rightarrow> (None, S\<lparr>pending := [], closed := True\<rparr>))"

definition new_session :: "db \<Rightarrow> db" where
  "new_session S = S\<lparr>pending := [], closed := False\<rparr>"

text \<open>\<^verbatim>\<open>range(0, n, step)\<close>.\<close>

definition py_range :: "nat \<Rightarrow> int \<Rightarrow> exn + nat list" where
  "py_range n step =
     (if step = 0 then Inl ValueError
      else if step < 0 then Inr []
      else Inr (map (\<lambda>k. k * nat step) [0 ..< (n + nat step - 1) div nat step]))"

text \<open>The loop over the batches, for a positive batch size: \<^verbatim>\<open>gdf.iloc[i:i+batch_size]\<close>
  is mapped row by row, added and committed; an exception leaves the loop.\<close>

fun batch_loop ::
  "env \<Rightarrow> string list \<Rightarrow> row list \<Rightarrow> nat \<Rightarrow> nat list \<Rightarrow> int \<Rightarrow> db \<Rightarrow> (exn + int) \<times> db" where
  "batch_loop E model_class rs bsize [] records_inserted S = (Inr records_inserted, S)"
| "batch_loop E model_class rs bsize (i # is) records_inserted S =
     (let batch_gdf = take bsize (drop i rs)
      in case collect (row_to_model E model_class) batch_gdf of
           Inl e \<Rightarrow> (Inl e, S)
         | Inr batch_models \<Rightarrow>
             (case commit E (add_all batch_models S) of
                (Some e, S') \<Rightarrow> (Inl e, S')
              | (None, S') \<Rightarrow>
                  batch_loop E model_class rs bsize is
                    (records_inserted + int (length batch_models)) S'))"

text \<open>The body of the \<^verbatim>\<open>try\<close> of \<^verbatim>\<open>gdf_to_sql_model\<close>, then the function with its
  handler, which rolls back and raises again.\<close>

definition insert_body :: "env \<Rightarrow> gdf \<Rightarrow> string list \<Rightarrow> int \<Rightarrow> db \<Rightarrow> (exn + int) \<times> db" where
  "insert_body E g model_class batch_size S =
     (case py_range (length (rows g)) batch_size of
        Inl e \<Rightarrow> (Inl e, S)
      | Inr is \<Rightarrow> batch_loop E model_class (rows g) (nat batch_size) is 0 S)"

definition gdf_to_sql_model :: "env \<Rightarrow> gdf \<Rightarrow> string list \<Rightarrow> int \<Rightarrow> db \<Rightarrow> (exn + int) \<times> db" where
  "gdf_to_sql_model E g model_class batch_size S =
     (case insert_body E g model_class batch_size S of
        (Inr n, S') \<Rightarrow> (Inr n, S')
      | (Inl e, S') \<Rightarrow>
          (case rollback E S' of
             (Some e', S'') \<Rightarrow> (Inl e', S'')
           | (None, S'') \<Rightarrow> (Inl e, S'')))"

text \<open>\<^verbatim>\<open>create_tables\<close>: dropping the tables loses what was committed; the tables
  are created, then the inspector lists them.\<close>

definition create_tables :: "env \<Rightarrow> bool \<Rightarrow> db \<Rightarrow> exn option \<times> db" where
  "create_tables E drop_first S =
     (case (if drop_first
            then (case drop_all_err E of
                    Some e \<Rightarrow> Inl e
                  | None \<Rightarrow> Inr (pr DroppedTables (S\<lparr>committed := []\<rparr>)))
            else Inr S) of
        Inl e \<Rightarrow> (Some e, S)
      | Inr S' \<Rightarrow>
          (case create_all_err E of
             Some e \<Rightarrow> (Some e, S')
           | None \<Rightarrow>
               (case inspect_err E of
                  Some e \<Rightarrow> (Some e, pr CreatedTables S')
                | None \<Rightarrow> (None, pr TablesInSchema (pr CreatedTables S')))))"

text \<open>The inner \<^verbatim>\<open>try\<close> of \<^verbatim>\<open>load_processed_geojson_to_db\<close>, with its handler and
  its \<^verbatim>\<open>finally\<close>: an exception of the handler or of the closing leaves it.\<close>

definition load_inner :: "env \<Rightarrow> gdf \<Rightarrow> string list \<Rightarrow> int \<Rightarrow> db \<Rightarrow> (exn + int) \<times> db" where
  "load_inner E g model_class batch_size S =
     (case (case gdf_to_sql_model E g model_class batch_size S of
              (Inr n, S') \<Rightarrow> (Inr n, S')
            | (Inl e, S') \<Rightarrow>
                (case rollback E S' of
                   (Some e', S'') \<Rightarrow> (Inl e', S'')
                 | (None, S'') \<Rightarrow> (Inr 0, pr (ErrorLoadingData e) S''))) of
        (res, S1) \<Rightarrow>
          (case close_session E S1 of
             (Some e, S2) \<Rightarrow> (Inl e, S2)
           | (None, S2) \<Rightarrow> (res, S2)))"

definition load_body ::
  "env \<Rightarrow> string \<Rightarrow> string list \<Rightarrow> int \<Rightarrow> bool \<Rightarrow> db \<Rightarrow> (exn + int) \<times> db" where
  "load_body E geojson_file_path model_class batch_size drop_existing S =
     (case read_file E geojson_file_path of
        Inl e \<Rightarrow> (Inl e, S)
      | Inr g \<Rightarrow>
          if rows g = [] then (Inr 0, pr (NoDataFound geojson_file_path) S)
          else (case (if crs g \<noteq> 4326
                      then (case to_crs E g 4326 of
                              Inl e \<Rightarrow> Inl e
                            | Inr g' \<Rightarrow> Inr (g', pr ConvertedToWGS84 S))
                      else Inr (g, S)) of
                  Inl e \<Rightarrow> (Inl e, S)
                | Inr (g', S0) \<Rightarrow>
                    (case get_engine_err E of
                       Some e \<Rightarrow> (Inl e, S0)
                     | None \<Rightarrow>
                         (case create_tables E drop_existing S0 of
                            (Some e, S1) \<Rightarrow> (Inl e, S1)
                          | (None, S1) \<Rightarrow>
                              load_inner E g' model_class batch_size (new_session S1)))))"

definition load_processed_geojson_to_db ::
  "env \<Rightarrow> string \<Rightarrow> string list \<Rightarrow> int \<Rightarrow> bool \<Rightarrow> db \<Rightarrow> (exn + int) \<times> db" where
  "load_processed_geojson_to_db E geojson_file_path model_class batch_size drop_existing S =
     (case load_body E geojson_file_path model_class batch_size drop_existing S of
        (Inl e, S') \<Rightarrow> (Inr 0, pr (ErrorReadingFile e) S')
      | (Inr n, S') \<Rightarrow> (Inr n, S'))"

section \<open>The loading script\<close>

record args =
  input_file :: "string option"
  input_dir :: "string option"
  pattern :: string
  batch_size :: int
  drop_existing :: bool

text \<open>The state of a run of \<^verbatim>\<open>main\<close>: the counters, the store, and the calls of the
  per-file load made so far, each with its file and its drop flag.\<close>

record run =
  total_files :: nat
  total_records :: int
  store :: db
  calls :: "(string \<times> bool) list"

definition given :: "string option \<Rightarrow> bool" where
  "given a = (case a of None \<Rightarrow> False | Some s \<Rightarrow> s \<noteq> [])"

definition say :: "msg \<Rightarrow> run \<Rightarrow> run" where
  "say m R = R\<lparr>store := pr m (store R)\<rparr>"

text \<open>One call of the per-file load inside its \<^verbatim>\<open>try\<close>: the counters move only when
  the call returns.\<close>

definition load_one :: "env \<Rightarrow> args \<Rightarrow> string \<Rightarrow> bool \<Rightarrow> run \<Rightarrow> run" where
  "load_one E a file_path drop_flag R =
     (case load_processed_geojson_to_db E file_path CyclingRoute (batch_size a) drop_flag (store R) of
        (Inl e, S') \<Rightarrow>
          say (ErrorForFile file_path e)
            (R\<lparr>store := S', calls := calls R @ [(file_path, drop_flag)]\<rparr>)
      | (Inr records_inserted, S') \<Rightarrow>
          (say (Inserted records_inserted file_path)
            (R\<lparr>store := S', calls := calls R @ [(file_path, drop_flag)]\<rparr>))
          \<lparr>total_files := total_files R + 1,
           total_records := total_records R + records_inserted\<rparr>)"

text \<open>The loop over \<^verbatim>\<open>enumerate(files)\<close> of the directory mode.\<close>

fun dir_loop :: "env \<Rightarrow> args \<Rightarrow> nat \<Rightarrow> string list \<Rightarrow> run \<Rightarrow> run" where
  "dir_loop E a i [] R = R"
| "dir_loop E a i (file_path # rest) R =
     (let drop_this_file = (drop_existing a \<and> i = 0)
      in dir_loop E a (Suc i) rest
           (load_one E a file_path drop_this_file (say (ProcessingFile (basename file_path)) R)))"

definition push_main :: "env \<Rightarrow> args \<Rightarrow> run \<Rightarrow> run" where
  "push_main E a R =
     (if \<not> given (input_file a) \<and> \<not> given (input_dir a) then say ErrorNoInput R
      else
        (let R0 = (if given (input_file a) \<and> given (input_dir a) then say WarnBothInputs R else R)
         in if given (input_file a)
            then (let f = the (input_file a)
                  in if \<not> path_exists E f then say (InputFileNotFound f) R0
                     else (let R1 = load_one E a f (drop_existing a) (say (ProcessingFile f) R0)
                           in say (Summary (total_files R1) (total_records R1)) R1))
            else (let d = the (input_dir a)
                  in if \<not> isdir E d then say (InputDirNotFound d) R0
                     else (let fl = glob_files E d (pattern a)
                           in if fl = [] then say (NoFilesMatching (pattern a) d) R0
                              else (let R1 = dir_loop E a 0 fl (say (FoundFiles (length fl)) R0)
                                    in say (Summary (total_files R1) (total_records R1)) R1)))))"

section \<open>A model of the library's row builder, and a concrete environment\<close>

text \<open>
  \<^verbatim>\<open>GeoDataFrame.from_features\<close> on decoded features: each feature is indexed at
  \<^verbatim>\<open>"geometry"\<close> (a false value gives \<^verbatim>\<open>None\<close>, anything else goes through
  \<^verbatim>\<open>shape\<close>) and at \<^verbatim>\<open>"properties"\<close> (\<^verbatim>\<open>None\<close> counts as no properties). The
  importer itself takes the builder from the environment; this model serves to run it on
  concrete documents.
\<close>

fun parse_point :: "json \<Rightarrow> point option" where
  "parse_point (JArr (JNum x # JNum y # zs)) = Some (x, y)"
| "parse_point _ = None"

fun parse_line :: "json \<Rightarrow> point list option" where
  "parse_line (JArr ps) = those (map parse_point ps)"
| "parse_line _ = None"

fun parse_lines :: "json \<Rightarrow> point list list option" where
  "parse_lines (JArr ls) = those (map parse_line ls)"
| "parse_lines _ = None"

definition shape :: "json \<Rightarrow> exn + geom" where
  "shape j =
     (case py_getitem j ''type'' of
        Inl e \<Rightarrow> Inl e
      | Inr t \<Rightarrow>
          (case py_getitem j ''coordinates'' of
             Inl e \<Rightarrow> Inl e
           | Inr c \<Rightarrow>
               if t = JStr ''Point''
               then (case parse_point c of None \<Rightarrow> Inl ValueError | Some p \<Rightarrow> Inr (Point p))
               else if t = JStr ''LineString''
               then (case parse_line c of
                       None \<Rightarrow> Inl ValueError
                     | Some ps \<Rightarrow> if length ps = 1 then Inl ValueError else Inr (LineString ps))
               else if t = JStr ''MultiLineString''
               then (case parse_lines c of
                       None \<Rightarrow> Inl ValueError
                     | Some ls \<Rightarrow> if 1 \<in> set (map length ls) then Inl ValueError
                                  else Inr (MultiLineString ls))
               else Inl GeometryTypeError))"

text \<open>A property named \<^verbatim>\<open>geometry\<close> replaces the geometry cell; the frame is then
  built only if the new cell is \<^verbatim>\<open>None\<close>.\<close>

definition feature_row :: "json \<Rightarrow> exn + row" where
  "feature_row f =
     (case py_getitem f ''geometry'' of
        Inl e \<Rightarrow> Inl e
      | Inr gj \<Rightarrow>
          (case (if truthy gj then map_sum id Some (shape gj) else Inr None) of
             Inl e \<Rightarrow> Inl e
           | Inr go \<Rightarrow>
               (case py_getitem f ''properties'' of
                  Inl e \<Rightarrow> Inl e
                | Inr JNull \<Rightarrow> Inr \<lparr>attrs = [], geometry = go\<rparr>
                | Inr (JObj ps) \<Rightarrow>
                    (case map_of ps ''geometry'' of
                       None \<Rightarrow> Inr \<lparr>attrs = ps, geometry = go\<rparr>
                     | Some JNull \<Rightarrow>
                         Inr \<lparr>attrs = filter (\<lambda>(k, v). k \<noteq> ''geometry'') ps, geometry = None\<rparr>
                     | Some _ \<Rightarrow> Inl TypeError)
                | Inr _ \<Rightarrow> Inl TypeError)))"

text \<open>A frame built from rows gives every row every column, in the order in which the
  columns first appear; a cell that a row does not have is missing.\<close>

definition frame_columns :: "row list \<Rightarrow> string list" where
  "frame_columns rs = rev (remdups (rev (concat (map (\<lambda>r. map fst (attrs r)) rs))))"

definition pad_row :: "string list \<Rightarrow> row \<Rightarrow> row" where
  "pad_row cols r =
     r\<lparr>attrs := map (\<lambda>c. (c, case map_of (attrs r) c of None \<Rightarrow> JNull | Some v \<Rightarrow> v)) cols\<rparr>"

definition as_frame :: "row list \<Rightarrow> row list" where
  "as_frame rs = map (pad_row (frame_columns rs)) rs"

fun gpd_from_features :: "json \<Rightarrow> exn + row list" where
  "gpd_from_features (JArr fs) =
     (case collect feature_row fs of Inl e \<Rightarrow> Inl e | Inr rs \<Rightarrow> Inr (as_frame rs))"
| "gpd_from_features _ = Inl TypeError"

text \<open>The document of the specification's scenario.\<close>

definition scenario_doc :: json where
  "scenario_doc =
     JObj [(''type'', JStr ''FeatureCollection''),
           (''features'', JArr [
              JObj [(''type'', JStr ''Feature''),
                    (''properties'', JObj [(''street'', JStr ''Main St''),
                                           (''type'', JStr ''Cycle Lane'')]),
                    (''geometry'', JObj [(''type'', JStr ''LineString''),
                                         (''coordinates'', JArr [
                                            JArr [JNum 300000, JNum 700000],
                                            JArr [JNum 300100, JNum 700100]])])]])]"

definition scenario_line :: geom where
  "scenario_line = LineString [(300000, 700000), (300100, 700100)]"

text \<open>
  A stand-in for the transformation between the two reference systems, to run the model
  on concrete inputs: an affine map of each point, and no change when source and target
  agree. The theorems hold for every transformation. In the concrete environment the
  directory can be made and the file written, a record has some attributes besides its
  columns, and assigning to \<^verbatim>\<open>__class__\<close> raises.
\<close>

definition affine_point :: "point \<Rightarrow> point" where
  "affine_point p = ((fst p - 400000) / 60000 - 2, snd p / 111000 + 49)"

fun affine_geom :: "geom \<Rightarrow> geom" where
  "affine_geom (Point p) = Point (affine_point p)"
| "affine_geom (LineString ps) = LineString (map affine_point ps)"
| "affine_geom (MultiLineString ls) = MultiLineString (map (map affine_point) ls)"

definition demo_env :: "json \<Rightarrow> env" where
  "demo_env doc =
     \<lparr>read_json = (\<lambda>p. if p = ''data/routes.json'' then Inr doc else Inl JSONDecodeError),
      from_features = gpd_from_features,
      osr_setup = None,
      reproject = (\<lambda>src dst g. if src = dst then Inr g else Inr (affine_geom g)),
      now = ''20250101_120000'',
      geom_wkt = (\<lambda>g. ''GEOMETRY''),
      makedirs_err = (\<lambda>d. None),
      write_err = (\<lambda>p. None),
      read_file = (\<lambda>p. Inl OSError),
      wkt_dumps = (\<lambda>g. ''GEOMETRY''),
      other_attr = (\<lambda>k. k \<in> set [''__class__'', ''__dict__'', ''metadata'', ''registry'',
                                   ''_sa_instance_state'']),
      setattr_err = (\<lambda>k v. if k = ''__class__'' then Some TypeError else None),
      get_engine_err = None,
      drop_all_err = None,
      create_all_err = None,
      inspect_err = None,
      commit_err = (\<lambda>done batch. None),
      rollback_err = None,
      close_err = None,
      path_exists = (\<lambda>p. True),
      isdir = (\<lambda>p. True),
      glob_files = (\<lambda>d p. [])\<rparr>"

text \<open>A document with three features, the second without a geometry.\<close>

definition mixed_doc :: json where
  "mixed_doc =
     JObj [(''type'', JStr ''FeatureCollection''),
           (''features'', JArr [
              JObj [(''type'', JStr ''Feature''),
                    (''properties'', JObj [(''street'', JStr ''High St'')]),
                    (''geometry'', JObj [(''type'', JStr ''LineString''),
                                         (''coordinates'', JArr [
                                            JArr [JNum 0, JNum 0], JArr [JNum 3, JNum 4]])])],
              JObj [(''type'', JStr ''Feature''),
                    (''properties'', JObj [(''street'', JStr ''Low Rd'')]),
                    (''geometry'', JNull)],
              JObj [(''type'', JStr ''Feature''),
                    (''properties'', JObj [(''street'', JStr ''Mill Ln'')]),
                    (''geometry'', JObj [(''type'', JStr ''LineString''),
                                         (''coordinates'', JArr [
                                            JArr [JNum 0, JNum 0], JArr [JNum 0, JNum 2]])])]])]"

definition mixed_table :: gdf where
  "mixed_table =
     \<lparr>rows = [\<lparr>attrs = [(''street'', JStr ''High St'')], geometry = Some (LineString [(0, 0), (3, 4)])\<rparr>,
              \<lparr>attrs = [(''street'', JStr ''Low Rd'')], geometry = None\<rparr>,
              \<lparr>attrs = [(''street'', JStr ''Mill Ln'')], geometry = Some (LineString [(0, 0), (0, 2)])\<rparr>],
      crs = 27700\<rparr>"

text \<open>A feature collection without features, an empty file system and an empty store.\<close>

definition empty_doc :: json where
  "empty_doc = JObj [(''type'', JStr ''FeatureCollection''), (''features'', JArr [])]"

definition empty_fs :: fs where
  "empty_fs = \<lparr>dirs = {}, files = Map.empty\<rparr>"

definition empty_db :: db where
  "empty_db = \<lparr>committed = [], pending = [], closed = False, out = []\<rparr>"

text \<open>An environment for the loader: every processed file holds the given table, and
  the commit that follows the given number of committed batches fails, if a number is
  given.\<close>

definition store_env :: "gdf \<Rightarrow> nat option \<Rightarrow> env" where
  "store_env tbl fail =
     (demo_env JNull)
       \<lparr>read_file := (\<lambda>p. Inr tbl),
        commit_err := (\<lambda>done batch. if Some (length done) = fail then Some DBError else None)\<rparr>"

text \<open>A processed table whose only row has no geometry, and one with three rows.\<close>

definition null_table :: gdf where
  "null_table = \<lparr>rows = [\<lparr>attrs = [(''street'', JStr ''Low Rd'')], geometry = None\<rparr>], crs = 4326\<rparr>"

definition three_table :: gdf where
  "three_table =
     \<lparr>rows = [\<lparr>attrs = [(''street'', JStr ''High St'')], geometry = Some (Point (0, 0))\<rparr>,
              \<lparr>attrs = [(''street'', JStr ''Low Rd'')], geometry = Some (Point (1, 1))\<rparr>,
              \<lparr>attrs = [(''street'', JStr ''Mill Ln'')], geometry = Some (Point (2, 2))\<rparr>],
      crs = 4326\<rparr>"

text \<open>A run of the loading script in directory mode over three files, with the
  request to drop the existing tables.\<close>

definition dir_env :: env where
  "dir_env =
     (store_env three_table None)
       \<lparr>glob_files := (\<lambda>d p. [''gen/a.geojson'', ''gen/b.geojson'', ''gen/c.geojson''])\<rparr>"

definition dir_args :: args where
  "dir_args =
     \<lparr>input_file = None, input_dir = Some ''gen'', pattern = ''*.geojson'',
      batch_size = 2, drop_existing = True\<rparr>"

definition empty_run :: run where
  "empty_run = \<lparr>total_files = 0, total_records = 0, store = empty_db, calls = []\<rparr>"

text \<open>An environment in which every write raises and leaves nothing at the path.\<close>

definition fail_write_env :: env where
  "fail_write_env = (demo_env scenario_doc)\<lparr>write_err := (\<lambda>p. Some (OSError, None))\<rparr>"




section \<open>Properties of the route processor\<close>

lemma map_of_dict_set_same: "map_of (dict_set d k v) k = Some v"
  by (induction d) auto

lemma map_of_dict_set_other: "k' \<noteq> k \<Longrightarrow> map_of (dict_set d k v) k' = map_of d k'"
  by (induction d) auto

lemma route_loop_results:
  "list_all2 (\<lambda>r r'. \<exists>g. geometry r = Some g \<and>
      r' = \<lparr>attrs = dict_set (dict_set (filter (\<lambda>(k, v). k \<noteq> ''geometry'') (attrs r))
                ''route_length_m'' (JNum (geom_length g))) ''source_file'' (JStr (basename fp)),
            geometry = Some g\<rparr>)
     (filter (\<lambda>r. geometry r \<noteq> None) rs) (snd (route_loop fp i rs))"
  by (induction rs arbitrary: i) (auto simp: split_beta Let_def split: option.splits)

lemma route_loop_log:
  "fst (route_loop fp i rs) =
     map (\<lambda>(j, r). ErrorProcessingFeature j AttributeError)
       (filter (\<lambda>(j, r). geometry r = None) (enumerate i rs))"
  by (induction rs arbitrary: i) (auto simp: split_beta Let_def split: option.splits)

lemma to_crs_rows_rel:
  "to_crs_rows f rs = Inr rs' \<Longrightarrow>
   list_all2 (\<lambda>r r'. attrs r' = attrs r \<and>
        ((geometry r = None \<and> geometry r' = None) \<or>
         (\<exists>g g'. geometry r = Some g \<and> f g = Inr g' \<and> geometry r' = Some g'))) rs rs'"
proof (induction rs arbitrary: rs')
  case Nil
  then show ?case by simp
next
  case (Cons r rs)
  then show ?case
    by (cases "geometry r") (auto split: sum.splits)
qed

lemma sqrt_20000_bounds: "\<bar>sqrt 20000 - 141.42\<bar> < (0.01 :: real)"
proof -
  have "(141.41::real)\<^sup>2 < 20000" by (simp add: power2_eq_square)
  then have a: "141.41 < sqrt 20000" by (rule real_less_rsqrt)
  have "(20000::real) < 141.43\<^sup>2" by (simp add: power2_eq_square)
  then have b: "sqrt 20000 < 141.43" by (intro real_less_lsqrt) simp_all
  from a b show ?thesis by linarith
qed

lemma scenario_import:
  assumes "read_json E p = Inr scenario_doc" and "from_features E = gpd_from_features"
  shows "import_json_data E p =
           ([Importing p], Inr (Some \<lparr>rows = [\<lparr>attrs = [(''street'', JStr ''Main St''), (''type'', JStr ''Cycle Lane'')],
                   geometry = Some scenario_line\<rparr>], crs = 27700\<rparr>))"
  using assms
  by (simp add: import_json_data_def import_body_def select_features_def type_is_def
      scenario_doc_def scenario_line_def feature_row_def shape_def
      as_frame_def frame_columns_def pad_row_def)

lemma scenario_process:
  assumes "osr_setup E = None" and "reproject E 27700 4326 scenario_line = Inr g'"
  shows "process_route_features E \<lparr>rows = [\<lparr>attrs = [(''street'', JStr ''Main St''), (''type'', JStr ''Cycle Lane'')],
                   geometry = Some scenario_line\<rparr>], crs = 27700\<rparr> p =
        ([], Inr (Some \<lparr>rows = [\<lparr>attrs = [(''street'', JStr ''Main St''), (''type'', JStr ''Cycle Lane''),
                   (''route_length_m'', JNum (sqrt 20000)), (''source_file'', JStr (basename p))],
                   geometry = Some g'\<rparr>], crs = 4326\<rparr>))"
  using assms
  by (simp add: process_route_features_def process_body_def to_crs_def scenario_line_def)


lemma route_loop_filter:
  "snd (route_loop fp i (filter (\<lambda>r. geometry r \<noteq> None) rs)) = snd (route_loop fp j rs)"
proof (induction rs arbitrary: i j)
  case Nil
  show ?case by simp
next
  case (Cons r rs)
  show ?case
  proof (cases "geometry r")
    case None
    then show ?thesis using Cons[of i "Suc j"] by (simp add: split_beta)
  next
    case (Some g)
    then show ?thesis using Cons[of "Suc i" "Suc j"] by (simp add: split_beta Let_def)
  qed
qed

lemma route_loop_nonempty:
  "(snd (route_loop fp i rs) = []) = (filter (\<lambda>r. geometry r \<noteq> None) rs = [])"
  using route_loop_results[of fp rs i] by (auto simp del: filter_False filter_empty_conv)

lemma route_loop_geoms:
  "map geometry (snd (route_loop fp i rs)) = map geometry (filter (\<lambda>r. geometry r \<noteq> None) rs)"
  by (induction rs arbitrary: i) (auto simp: split_beta Let_def split: option.splits)

lemma to_crs_rows_total:
  "(\<forall>go \<in> set (map geometry rs). \<forall>g. go = Some g \<longrightarrow> (\<exists>g'. f g = Inr g')) \<Longrightarrow> \<exists>rs'. to_crs_rows f rs = Inr rs'"
proof (induction rs)
  case Nil
  show ?case by simp
next
  case (Cons r rs)
  then obtain rs' where "to_crs_rows f rs = Inr rs'" by auto
  with Cons.prems show ?case by (cases "geometry r") (auto split: sum.splits)
qed

lemma import_crs:
  assumes imp: "import_json_data E p = (m1, Inr (Some g))"
  shows "crs g = 27700"
    using imp
    by (auto simp: import_json_data_def import_body_def split: sum.splits if_splits prod.splits)

lemma process_some:
  assumes prc: "process_route_features E g p = (m2, Inr (Some result))"
  shows "\<exists>rs'. to_crs_rows (reproject E 27700 4326) (snd (route_loop p 0 (rows g))) = Inr rs' \<and> result = \<lparr>rows = rs', crs = 4326\<rparr>"
proof -
  from prc have "snd (process_body E g p) = Inr (Some result)"
    by (simp add: process_route_features_def split: prod.splits sum.splits)
  then show ?thesis
    by (simp add: process_body_def to_crs_def split_beta split: option.splits if_splits sum.splits)
qed

lemma list_all2_chain:
  assumes "list_all2 P xs ys" and "list_all2 Q ys zs"
    and "\<And>x y z. P x y \<Longrightarrow> Q y z \<Longrightarrow> R x z"
  shows "list_all2 R xs zs"
proof -
  have "(list_all2 P OO list_all2 Q) xs zs" using assms(1,2) by (rule relcomppI)
  then have "list_all2 (P OO Q) xs zs" by (simp only: list.rel_compp)
  then show ?thesis
    by (rule list_all2_mono) (auto intro: assms(3))
qed

text \<open>
  Claim C1. For a table returned by the importer and the table the route processor
  returns for it: the imported table is tagged EPSG:27700, the processed table is tagged
  EPSG:4326, and the processed rows are, in order, the rows with a geometry, each with
  \<^verbatim>\<open>route_length_m\<close> set to the length of the geometry as imported (before the
  reprojection) and with the reprojected geometry.
\<close>

theorem length_measured_before_reprojection:
  assumes imp: "import_json_data E p = (m1, Inr (Some g))"
      and prc: "process_route_features E g p = (m2, Inr (Some result))"
  shows "crs g = 27700 \<and> crs result = 4326 \<and>
         list_all2 (\<lambda>r r'. \<exists>gm gm'. geometry r = Some gm \<and>
              reproject E 27700 4326 gm = Inr gm' \<and> geometry r' = Some gm' \<and>
              map_of (attrs r') ''route_length_m'' = Some (JNum (geom_length gm)))
           (filter (\<lambda>r. geometry r \<noteq> None) (rows g)) (rows result)"
proof -
  have c: "crs g = 27700" using imp by (rule import_crs)
  from process_some[OF prc] obtain rs'
    where t: "to_crs_rows (reproject E 27700 4326) (snd (route_loop p 0 (rows g))) = Inr rs'"
      and r: "result = \<lparr>rows = rs', crs = 4326\<rparr>"
    by blast
  have "list_all2 (\<lambda>r r'. \<exists>gm gm'. geometry r = Some gm \<and>
              reproject E 27700 4326 gm = Inr gm' \<and> geometry r' = Some gm' \<and>
              map_of (attrs r') ''route_length_m'' = Some (JNum (geom_length gm)))
           (filter (\<lambda>r. geometry r \<noteq> None) (rows g)) rs'"
  proof (rule list_all2_chain[OF route_loop_results to_crs_rows_rel[OF t]])
    fix r r' r''
    assume "\<exists>g. geometry r = Some g \<and>
      r' = \<lparr>attrs = dict_set (dict_set (filter (\<lambda>(k, v). k \<noteq> ''geometry'') (attrs r))
                ''route_length_m'' (JNum (geom_length g))) ''source_file'' (JStr (basename p)),
            geometry = Some g\<rparr>"
    then obtain gm where 1: "geometry r = Some gm"
        and 2: "attrs r' = dict_set (dict_set (filter (\<lambda>(k, v). k \<noteq> ''geometry'') (attrs r))
                ''route_length_m'' (JNum (geom_length gm))) ''source_file'' (JStr (basename p))"
        and g2: "geometry r' = Some gm"
      by auto
    assume "attrs r'' = attrs r' \<and>
        ((geometry r' = None \<and> geometry r'' = None) \<or>
         (\<exists>g g'. geometry r' = Some g \<and> reproject E 27700 4326 g = Inr g' \<and> geometry r'' = Some g'))"
    with g2 obtain gm' where 3: "attrs r'' = attrs r'"
      and 5: "reproject E 27700 4326 gm = Inr gm'" "geometry r'' = Some gm'"
      by auto
    have "map_of (attrs r'') ''route_length_m'' = Some (JNum (geom_length gm))"
      unfolding 3 2 by (simp add: map_of_dict_set_same map_of_dict_set_other)
    with 1 5 show "\<exists>gm gm'. geometry r = Some gm \<and>
              reproject E 27700 4326 gm = Inr gm' \<and> geometry r'' = Some gm' \<and>
              map_of (attrs r'') ''route_length_m'' = Some (JNum (geom_length gm))"
      by blast
  qed
  with c r show ?thesis by simp
qed

theorem length_measured_before_reprojection_witness:
  "\<exists>m1 g m2 result.
     import_json_data (demo_env scenario_doc) ''data/routes.json'' = (m1, Inr (Some g)) \<and>
     process_route_features (demo_env scenario_doc) g ''data/routes.json'' = (m2, Inr (Some result)) \<and>
     rows result \<noteq> [] \<and>
     crs g = 27700 \<and> crs result = 4326 \<and>
     list_all2 (\<lambda>r r'. \<exists>gm gm'. geometry r = Some gm \<and>
          reproject (demo_env scenario_doc) 27700 4326 gm = Inr gm' \<and> geometry r' = Some gm' \<and>
          map_of (attrs r') ''route_length_m'' = Some (JNum (geom_length gm)))
       (filter (\<lambda>r. geometry r \<noteq> None) (rows g)) (rows result)"
proof -
  have h1: "import_json_data (demo_env scenario_doc) ''data/routes.json'' =
           ([Importing ''data/routes.json''], Inr (Some \<lparr>rows = [\<lparr>attrs = [(''street'', JStr ''Main St''), (''type'', JStr ''Cycle Lane'')],
                   geometry = Some scenario_line\<rparr>], crs = 27700\<rparr>))"
    by (rule scenario_import) (simp_all add: demo_env_def)
  have h2: "process_route_features (demo_env scenario_doc) \<lparr>rows = [\<lparr>attrs = [(''street'', JStr ''Main St''), (''type'', JStr ''Cycle Lane'')],
                   geometry = Some scenario_line\<rparr>], crs = 27700\<rparr> ''data/routes.json'' =
        ([], Inr (Some \<lparr>rows = [\<lparr>attrs = [(''street'', JStr ''Main St''), (''type'', JStr ''Cycle Lane''),
                   (''route_length_m'', JNum (sqrt 20000)), (''source_file'', JStr (basename ''data/routes.json''))],
                   geometry = Some (affine_geom scenario_line)\<rparr>], crs = 4326\<rparr>))"
    by (rule scenario_process) (simp_all add: demo_env_def)
  have h3: "rows \<lparr>rows = [\<lparr>attrs = [(''street'', JStr ''Main St''), (''type'', JStr ''Cycle Lane''),
                   (''route_length_m'', JNum (sqrt 20000)), (''source_file'', JStr (basename ''data/routes.json''))],
                   geometry = Some (affine_geom scenario_line)\<rparr>], crs = 4326\<rparr> \<noteq> []"
    by simp
  from length_measured_before_reprojection[OF h1 h2] h1 h2 h3 show ?thesis by blast
qed

text \<open>
  Claim C8. The scenario document, processed under the projected reference system,
  gives one processed record: its \<^verbatim>\<open>route_length_m\<close> is the Euclidean distance of the
  two coordinate pairs, within 0.01 of 141.42, and its geometry is the reprojection of
  the line, in a table tagged EPSG:4326.
\<close>

theorem scenario_one_record:
  assumes "read_json E p = Inr scenario_doc"
      and "from_features E = gpd_from_features"
      and "osr_setup E = None"
      and "reproject E 27700 4326 (LineString [(300000, 700000), (300100, 700100)]) = Inr g'"
  shows "\<exists>m1 g m2 len.
           import_json_data E p = (m1, Inr (Some g)) \<and> crs g = 27700 \<and>
           process_route_features E g p =
             (m2, Inr (Some \<lparr>rows = [\<lparr>attrs = [(''street'', JStr ''Main St''),
                                               (''type'', JStr ''Cycle Lane''),
                                               (''route_length_m'', JNum len),
                                               (''source_file'', JStr (basename p))],
                                      geometry = Some g'\<rparr>],
                             crs = 4326\<rparr>)) \<and>
           len = seg_length (300000, 700000) (300100, 700100) \<and>
           \<bar>len - 141.42\<bar> < 0.01"
proof -
  note h1 = scenario_import[OF assms(1,2)]
  have "reproject E 27700 4326 scenario_line = Inr g'"
    using assms(4) by (simp add: scenario_line_def)
  note h2 = scenario_process[OF assms(3) this, of p]
  have "seg_length (300000, 700000) (300100, 700100) = sqrt 20000" by simp
  with h1 h2 sqrt_20000_bounds show ?thesis by simp
qed

theorem scenario_one_record_witness:
  "\<exists>m1 g m2 len.
           import_json_data (demo_env scenario_doc) ''data/routes.json'' = (m1, Inr (Some g)) \<and> crs g = 27700 \<and>
           process_route_features (demo_env scenario_doc) g ''data/routes.json'' =
             (m2, Inr (Some \<lparr>rows = [\<lparr>attrs = [(''street'', JStr ''Main St''),
                                               (''type'', JStr ''Cycle Lane''),
                                               (''route_length_m'', JNum len),
                                               (''source_file'', JStr ''routes.json'')],
                                      geometry = Some (LineString [affine_point (300000, 700000), affine_point (300100, 700100)])\<rparr>],
                             crs = 4326\<rparr>)) \<and>
           len = seg_length (300000, 700000) (300100, 700100) \<and>
           \<bar>len - 141.42\<bar> < 0.01"
proof -
  have b: "basename ''data/routes.json'' = ''routes.json''" by (simp add: basename_def)
  have "reproject (demo_env scenario_doc) 27700 4326 (LineString [(300000, 700000), (300100, 700100)])
       = Inr (LineString [affine_point (300000, 700000), affine_point (300100, 700100)])"
    by (simp add: demo_env_def)
  from scenario_one_record[of "demo_env scenario_doc" "''data/routes.json''", OF _ _ _ this] b
  show ?thesis by (simp add: demo_env_def)
qed

lemma process_unfold:
  assumes "osr_setup E = None"
  shows "process_route_features E g p =
     (if snd (route_loop p 0 (rows g)) = [] then (fst (route_loop p 0 (rows g)) @ [NoValidResults], Inr None)
      else case to_crs_rows (reproject E 27700 4326) (snd (route_loop p 0 (rows g))) of
             Inl e \<Rightarrow> (fst (route_loop p 0 (rows g)) @ [ErrorProcessingFeatures e], Inr None)
           | Inr rs' \<Rightarrow> (fst (route_loop p 0 (rows g)), Inr (Some \<lparr>rows = rs', crs = 4326\<rparr>)))"
  using assms
  by (simp add: process_route_features_def process_body_def to_crs_def split_beta split: sum.splits)

lemma process_snd:
  assumes "osr_setup E = None"
  shows "snd (process_route_features E g p) =
     (if snd (route_loop p 0 (rows g)) = [] then Inr None
      else case to_crs_rows (reproject E 27700 4326) (snd (route_loop p 0 (rows g))) of
             Inl e \<Rightarrow> Inr None
           | Inr rs' \<Rightarrow> Inr (Some \<lparr>rows = rs', crs = 4326\<rparr>))"
  by (simp add: process_unfold[OF assms] split: sum.splits)

text \<open>
  Claim C5. When the transformation is set up, the route processor prints one warning
  for each row without a geometry, in order and with the row's position; its result is
  the one it gives on the table without those rows; a returned table holds, in input
  order, exactly the rows whose length was measured, each with its own attributes and
  the two derived ones; and when some row has a geometry and the reprojection accepts
  every geometry, a table is returned, whatever the number of rows without one.
\<close>

theorem unmeasurable_rows_skipped:
  assumes osr: "osr_setup E = None"
  shows "(\<exists>rest. fst (process_route_features E g p) =
            map (\<lambda>(j, r). ErrorProcessingFeature j AttributeError)
              (filter (\<lambda>(j, r). geometry r = None) (enumerate 0 (rows g))) @ rest) \<and>
         snd (process_route_features E g p) =
           snd (process_route_features E (g\<lparr>rows := filter (\<lambda>r. geometry r \<noteq> None) (rows g)\<rparr>) p) \<and>
         (\<forall>result. snd (process_route_features E g p) = Inr (Some result) \<longrightarrow>
            list_all2 (\<lambda>r r'. \<exists>gm. geometry r = Some gm \<and>
                 attrs r' = dict_set (dict_set (filter (\<lambda>(k, v). k \<noteq> ''geometry'') (attrs r))
                     ''route_length_m'' (JNum (geom_length gm))) ''source_file'' (JStr (basename p)))
              (filter (\<lambda>r. geometry r \<noteq> None) (rows g)) (rows result)) \<and>
         (filter (\<lambda>r. geometry r \<noteq> None) (rows g) \<noteq> [] \<and>
          (\<forall>r \<in> set (rows g). \<forall>gm. geometry r = Some gm \<longrightarrow> (\<exists>gm'. reproject E 27700 4326 gm = Inr gm')) \<longrightarrow>
            (\<exists>result. snd (process_route_features E g p) = Inr (Some result)))"
proof (intro conjI allI impI)
  show "\<exists>rest. fst (process_route_features E g p) =
            map (\<lambda>(j, r). ErrorProcessingFeature j AttributeError)
              (filter (\<lambda>(j, r). geometry r = None) (enumerate 0 (rows g))) @ rest"
  proof -
    have "\<exists>rest. fst (process_route_features E g p) = fst (route_loop p 0 (rows g)) @ rest"
      by (simp add: process_unfold[OF osr] split: sum.splits)
    then show ?thesis by (simp only: route_loop_log)
  qed
next
  show "snd (process_route_features E g p) =
           snd (process_route_features E (g\<lparr>rows := filter (\<lambda>r. geometry r \<noteq> None) (rows g)\<rparr>) p)"
  proof -
    have sel: "rows (g\<lparr>rows := filter (\<lambda>r. geometry r \<noteq> None) (rows g)\<rparr>) =
               filter (\<lambda>r. geometry r \<noteq> None) (rows g)"
      by simp
    show ?thesis
      by (simp only: process_snd[OF osr] sel route_loop_filter[of p 0 "rows g" 0])
  qed
next
  fix result
  assume "snd (process_route_features E g p) = Inr (Some result)"
  then obtain rs' where t: "to_crs_rows (reproject E 27700 4326) (snd (route_loop p 0 (rows g))) = Inr rs'"
    and r: "rows result = rs'"
    unfolding process_unfold[OF osr] by (auto split: if_splits sum.splits)
  show "list_all2 (\<lambda>r r'. \<exists>gm. geometry r = Some gm \<and>
                 attrs r' = dict_set (dict_set (filter (\<lambda>(k, v). k \<noteq> ''geometry'') (attrs r))
                     ''route_length_m'' (JNum (geom_length gm))) ''source_file'' (JStr (basename p)))
              (filter (\<lambda>r. geometry r \<noteq> None) (rows g)) (rows result)"
    unfolding r
    by (rule list_all2_chain[OF route_loop_results to_crs_rows_rel[OF t]]) auto
next
  assume a: "filter (\<lambda>r. geometry r \<noteq> None) (rows g) \<noteq> [] \<and>
          (\<forall>r \<in> set (rows g). \<forall>gm. geometry r = Some gm \<longrightarrow> (\<exists>gm'. reproject E 27700 4326 gm = Inr gm'))"
  then have ne: "snd (route_loop p 0 (rows g)) \<noteq> []"
    by (simp only: route_loop_nonempty not_False_eq_True)
  have "\<forall>go \<in> set (map geometry (snd (route_loop p 0 (rows g)))). \<forall>gm. go = Some gm \<longrightarrow> (\<exists>gm'. reproject E 27700 4326 gm = Inr gm')"
    unfolding route_loop_geoms using a by auto
  from to_crs_rows_total[OF this] obtain rs' where
    "to_crs_rows (reproject E 27700 4326) (snd (route_loop p 0 (rows g))) = Inr rs'" by blast
  with ne show "\<exists>result. snd (process_route_features E g p) = Inr (Some result)"
    unfolding process_unfold[OF osr] by simp
qed


theorem unmeasurable_rows_skipped_witness:
  "osr_setup (demo_env mixed_doc) = None \<and>
   snd (import_json_data (demo_env mixed_doc) ''data/routes.json'') = Inr (Some mixed_table) \<and>
   (\<exists>rest. fst (process_route_features (demo_env mixed_doc) mixed_table ''data/routes.json'') =
       ErrorProcessingFeature 1 AttributeError # rest) \<and>
   (\<exists>result. snd (process_route_features (demo_env mixed_doc) mixed_table ''data/routes.json'') =
       Inr (Some result) \<and>
       length (rows result) = 2)"
proof -
  have osr: "osr_setup (demo_env mixed_doc) = None" by (simp add: demo_env_def)
  have imp: "snd (import_json_data (demo_env mixed_doc) ''data/routes.json'') = Inr (Some mixed_table)"
    by (simp add: import_json_data_def import_body_def select_features_def type_is_def
        mixed_doc_def mixed_table_def feature_row_def shape_def demo_env_def
        as_frame_def frame_columns_def pad_row_def)
  note t = unmeasurable_rows_skipped[OF osr, of mixed_table "''data/routes.json''"]
  have flt: "filter (\<lambda>r. geometry r \<noteq> None) (rows mixed_table) =
      [\<lparr>attrs = [(''street'', JStr ''High St'')], geometry = Some (LineString [(0, 0), (3, 4)])\<rparr>,
       \<lparr>attrs = [(''street'', JStr ''Mill Ln'')], geometry = Some (LineString [(0, 0), (0, 2)])\<rparr>]"
    by (simp add: mixed_table_def)
  have enum: "filter (\<lambda>(j, r). geometry r = None) (enumerate 0 (rows mixed_table)) =
      [(1, \<lparr>attrs = [(''street'', JStr ''Low Rd'')], geometry = None\<rparr>)]"
    by (simp add: mixed_table_def)
  note t1 = t[THEN conjunct1]
  note t3 = t[THEN conjunct2, THEN conjunct2, THEN conjunct1]
  note t4 = t[THEN conjunct2, THEN conjunct2, THEN conjunct2]
  from t1 have a: "\<exists>rest. fst (process_route_features (demo_env mixed_doc) mixed_table ''data/routes.json'') =
       ErrorProcessingFeature 1 AttributeError # rest"
    unfolding enum by simp
  have tot: "\<forall>r \<in> set (rows mixed_table). \<forall>gm. geometry r = Some gm \<longrightarrow>
      (\<exists>gm'. reproject (demo_env mixed_doc) 27700 4326 gm = Inr gm')"
    by (simp add: demo_env_def)
  have ne: "filter (\<lambda>r. geometry r \<noteq> None) (rows mixed_table) \<noteq> []"
    unfolding flt by simp
  from t4 ne tot obtain result where
    r: "snd (process_route_features (demo_env mixed_doc) mixed_table ''data/routes.json'') = Inr (Some result)"
    by blast
  with t3 have "list_all2 (\<lambda>r r'. \<exists>gm. geometry r = Some gm \<and>
                 attrs r' = dict_set (dict_set (filter (\<lambda>(k, v). k \<noteq> ''geometry'') (attrs r))
                     ''route_length_m'' (JNum (geom_length gm))) ''source_file'' (JStr (basename ''data/routes.json'')))
              (filter (\<lambda>r. geometry r \<noteq> None) (rows mixed_table)) (rows result)"
    by blast
  then have "length (rows result) = length (filter (\<lambda>r. geometry r \<noteq> None) (rows mixed_table))"
    by (simp only: list_all2_lengthD)
  then have "length (rows result) = 2"
    unfolding flt by simp
  with osr imp a r show ?thesis by blast
qed

section \<open>Properties of the feature importer\<close>

lemma import_never_raises: "\<exists>m r. import_json_data E p = (m, Inr r)"
  by (simp add: import_json_data_def split: prod.splits sum.splits)

lemma import_read_error:
  "read_json E p = Inl e \<Longrightarrow>
   import_json_data E p = ([Importing p, ErrorImporting p e], Inr None)"
  by (simp add: import_json_data_def import_body_def)

lemma import_no_features:
  "read_json E p = Inr d \<Longrightarrow> select_features d = Inr fs \<Longrightarrow> \<not> truthy fs \<Longrightarrow>
   import_json_data E p = ([Importing p, NoFeaturesFound p], Inr None)"
  by (simp add: import_json_data_def import_body_def)

lemma select_untyped_object:
  "''type'' \<notin> set (map fst kv) \<Longrightarrow> select_features (JObj kv) = Inr (JArr [])"
  by (simp add: select_features_def type_is_def)

text \<open>
  Claim C4, as amended. The importer never raises, and returns \<^verbatim>\<open>None\<close> in each
  failure mode. A file that cannot be read or decoded prints the error message of the
  handler; a document whose selected features are empty, and an object without a
  \<^verbatim>\<open>type\<close> key, print the message that no features were found.
\<close>

theorem import_failure_modes:
  "(\<exists>m r. import_json_data E p = (m, Inr r)) \<and>
   (\<forall>e. read_json E p = Inl e \<longrightarrow>
      import_json_data E p = ([Importing p, ErrorImporting p e], Inr None)) \<and>
   (\<forall>d fs. read_json E p = Inr d \<and> select_features d = Inr fs \<and> \<not> truthy fs \<longrightarrow>
      import_json_data E p = ([Importing p, NoFeaturesFound p], Inr None)) \<and>
   (\<forall>kv. read_json E p = Inr (JObj kv) \<and> ''type'' \<notin> set (map fst kv) \<longrightarrow>
      import_json_data E p = ([Importing p, NoFeaturesFound p], Inr None))"
proof (intro conjI allI impI)
  show "\<exists>m r. import_json_data E p = (m, Inr r)" by (rule import_never_raises)
next
  fix e assume "read_json E p = Inl e"
  then show "import_json_data E p = ([Importing p, ErrorImporting p e], Inr None)"
    by (rule import_read_error)
next
  fix d fs assume "read_json E p = Inr d \<and> select_features d = Inr fs \<and> \<not> truthy fs"
  then show "import_json_data E p = ([Importing p, NoFeaturesFound p], Inr None)"
    by (blast intro: import_no_features)
next
  fix kv assume a: "read_json E p = Inr (JObj kv) \<and> ''type'' \<notin> set (map fst kv)"
  then have "select_features (JObj kv) = Inr (JArr [])" by (intro select_untyped_object) simp
  with a show "import_json_data E p = ([Importing p, NoFeaturesFound p], Inr None)"
    by (intro import_no_features[of E p "JObj kv" "JArr []"]) simp_all
qed

theorem import_failure_modes_witness:
  "import_json_data (demo_env empty_doc) ''data/broken.json'' =
     ([Importing ''data/broken.json'', ErrorImporting ''data/broken.json'' JSONDecodeError], Inr None) \<and>
   import_json_data (demo_env empty_doc) ''data/routes.json'' =
     ([Importing ''data/routes.json'', NoFeaturesFound ''data/routes.json''], Inr None) \<and>
   import_json_data (demo_env (JObj [(''name'', JStr ''routes'')])) ''data/routes.json'' =
     ([Importing ''data/routes.json'', NoFeaturesFound ''data/routes.json''], Inr None)"
proof -
  have r1: "read_json (demo_env empty_doc) ''data/broken.json'' = Inl JSONDecodeError"
    by (simp add: demo_env_def)
  have r2: "read_json (demo_env empty_doc) ''data/routes.json'' = Inr empty_doc \<and>
            select_features empty_doc = Inr (JArr []) \<and> \<not> truthy (JArr [])"
    by (simp add: demo_env_def empty_doc_def select_features_def type_is_def)
  have r3: "read_json (demo_env (JObj [(''name'', JStr ''routes'')])) ''data/routes.json'' =
              Inr (JObj [(''name'', JStr ''routes'')]) \<and>
            ''type'' \<notin> set (map fst [(''name'', JStr ''routes'')])"
    by (simp add: demo_env_def)
  from import_failure_modes[of "demo_env empty_doc" "''data/broken.json''"] r1
  have a: "import_json_data (demo_env empty_doc) ''data/broken.json'' =
     ([Importing ''data/broken.json'', ErrorImporting ''data/broken.json'' JSONDecodeError], Inr None)"
    by blast
  from import_failure_modes[of "demo_env empty_doc" "''data/routes.json''"] r2
  have b: "import_json_data (demo_env empty_doc) ''data/routes.json'' =
     ([Importing ''data/routes.json'', NoFeaturesFound ''data/routes.json''], Inr None)"
    by blast
  from import_failure_modes[of "demo_env (JObj [(''name'', JStr ''routes'')])" "''data/routes.json''"] r3
  have c: "import_json_data (demo_env (JObj [(''name'', JStr ''routes'')])) ''data/routes.json'' =
     ([Importing ''data/routes.json'', NoFeaturesFound ''data/routes.json''], Inr None)"
    by blast
  from a b c show ?thesis by blast
qed

text \<open>
  Malformed JSON is reported by the handler's error message, not by the message that no
  features were found, and the caller receives the same value as for an empty feature
  list.
\<close>

theorem malformed_json_counterexample:
  "fst (import_json_data (demo_env empty_doc) ''data/broken.json'') =
     [Importing ''data/broken.json'', ErrorImporting ''data/broken.json'' JSONDecodeError] \<and>
   NoFeaturesFound ''data/broken.json'' \<notin> set (fst (import_json_data (demo_env empty_doc) ''data/broken.json'')) \<and>
   snd (import_json_data (demo_env empty_doc) ''data/broken.json'') =
     snd (import_json_data (demo_env empty_doc) ''data/routes.json'')"
  by (simp add: import_json_data_def import_body_def demo_env_def empty_doc_def
      select_features_def type_is_def)

section \<open>Properties of the exporter\<close>

lemma process_never_raises: "\<exists>m r. process_route_features E g p = (m, Inr r)"
  by (simp add: process_route_features_def split: prod.splits sum.splits)

lemma to_crs_rows_keeps_geometry:
  "to_crs_rows f rs = Inr rs' \<Longrightarrow> None \<notin> set (map geometry rs) \<Longrightarrow> None \<notin> set (map geometry rs')"
proof (induction rs arbitrary: rs')
  case Nil
  then show ?case by simp
next
  case (Cons r rs)
  then show ?case by (cases "geometry r") (auto split: sum.splits)
qed

lemma process_rows_have_geometry:
  assumes "process_route_features E g p = (m, Inr (Some result))"
  shows "None \<notin> set (map geometry (rows result))"
proof -
  from process_some[OF assms] obtain rs'
    where t: "to_crs_rows (reproject E 27700 4326) (snd (route_loop p 0 (rows g))) = Inr rs'"
      and r: "result = \<lparr>rows = rs', crs = 4326\<rparr>"
    by blast
  have "None \<notin> set (map geometry (snd (route_loop p 0 (rows g))))"
    unfolding route_loop_geoms by auto
  from to_crs_rows_keeps_geometry[OF t this] r show ?thesis by simp
qed

lemma csv_rows_total:
  "None \<notin> set (map geometry rs) \<Longrightarrow> \<exists>t. csv_rows E rs = Inr t"
proof (induction rs)
  case Nil
  show ?case by simp
next
  case (Cons r rs)
  then obtain t where "csv_rows E rs = Inr t" by auto
  with Cons.prems show ?case by (cases "geometry r") auto
qed

lemma pipeline_import_none:
  assumes "snd (import_json_data E p) = Inr None"
  shows "\<exists>m. process_route_json_file E p d fmt F = ((m, Inr None), F)"
  using assms
  by (auto simp: process_route_json_file_def pipeline_body_def split: prod.splits sum.splits option.splits)

lemma pipeline_process_none:
  assumes "snd (import_json_data E p) = Inr (Some g)"
      and "snd (process_route_features E g p) = Inr None"
  shows "\<exists>m. process_route_json_file E p d fmt F = ((m, Inr None), F)"
  using assms
  by (auto simp: process_route_json_file_def pipeline_body_def split: prod.splits sum.splits option.splits)

lemma pipeline_written:
  assumes "snd (import_json_data E p) = Inr (Some g)"
      and "snd (process_route_features E g p) = Inr (Some result)"
      and "d \<in> dirs F" and "fmt = ''geojson'' \<or> fmt = ''csv''"
      and "write_err E (d, splitext_root (basename p) @ ''_'' @ now E @ ''.'' @ fmt) = None"
  shows "\<exists>m content. process_route_json_file E p d fmt F =
           ((m, Inr (Some (OutputFile (d, splitext_root (basename p) @ ''_'' @ now E @ ''.'' @ fmt)))),
            F\<lparr>files := (files F)((d, splitext_root (basename p) @ ''_'' @ now E @ ''.'' @ fmt) \<mapsto> content)\<rparr>)"
proof -
  obtain m2 where "process_route_features E g p = (m2, Inr (Some result))"
    using assms(2) by (cases "process_route_features E g p") simp
  from process_rows_have_geometry[OF this] obtain t where t: "csv_rows E (rows result) = Inr t"
    using csv_rows_total by blast
  from assms(4) show ?thesis
  proof
    assume "fmt = ''geojson''"
    with assms(1,2,3,5) show ?thesis
      by (auto simp: process_route_json_file_def pipeline_body_def write_file_def Let_def
          split: prod.splits sum.splits option.splits)
  next
    assume "fmt = ''csv''"
    with assms(1,2,3,5) t show ?thesis
      by (auto simp: process_route_json_file_def pipeline_body_def write_file_def Let_def
          split: prod.splits sum.splits option.splits)
  qed
qed

lemma pipeline_write_raises:
  assumes "snd (import_json_data E p) = Inr (Some g)"
      and "snd (process_route_features E g p) = Inr (Some result)"
      and "d \<in> dirs F" and "fmt = ''geojson'' \<or> fmt = ''csv''"
      and "write_err E (d, splitext_root (basename p) @ ''_'' @ now E @ ''.'' @ fmt) = Some (e, left)"
  shows "\<exists>m. process_route_json_file E p d fmt F =
           ((m, Inr None),
            F\<lparr>files := (files F)((d, splitext_root (basename p) @ ''_'' @ now E @ ''.'' @ fmt) := left)\<rparr>)"
proof -
  obtain m2 where "process_route_features E g p = (m2, Inr (Some result))"
    using assms(2) by (cases "process_route_features E g p") simp
  from process_rows_have_geometry[OF this] obtain t where t: "csv_rows E (rows result) = Inr t"
    using csv_rows_total by blast
  from assms(4) show ?thesis
  proof
    assume "fmt = ''geojson''"
    with assms(1,2,3,5) show ?thesis
      by (auto simp: process_route_json_file_def pipeline_body_def write_file_def Let_def
          split: prod.splits sum.splits option.splits)
  next
    assume "fmt = ''csv''"
    with assms(1,2,3,5) t show ?thesis
      by (auto simp: process_route_json_file_def pipeline_body_def write_file_def Let_def
          split: prod.splits sum.splits option.splits)
  qed
qed

lemma main_after_makedirs:
  assumes "makedirs_err E d = None"
      and "process_route_json_file E p d fmt (snd (makedirs E F d)) = ((m, Inr r), F')"
  shows "process_main E p d fmt F =
           ((m @ [if r \<noteq> None then ProcessingComplete else ProcessingFailed], Inr ()), F')"
  using assms by (simp add: process_main_def makedirs_def)

text \<open>
  Claim C9, as amended. For the formats \<^verbatim>\<open>geojson\<close> and \<^verbatim>\<open>csv\<close>: when making the
  output directory raises, the exception leaves \<^verbatim>\<open>main\<close> and nothing is written.
  Otherwise the call never raises; when the import or the processing returned
  \<^verbatim>\<open>None\<close> it returns \<^verbatim>\<open>None\<close> and leaves the files as they were; when both
  succeeded and the write does not raise, it returns the path of a file in the output
  directory and the files differ from the former ones in that file alone; when the write
  raises, it returns \<^verbatim>\<open>None\<close> and no other file is touched.
\<close>

theorem exporter_outcomes:
  assumes fmt: "fmt = ''geojson'' \<or> fmt = ''csv''"
  shows "(\<forall>e. makedirs_err E d = Some e \<longrightarrow> process_main E p d fmt F = (([], Inl e), F)) \<and>
         (makedirs_err E d = None \<longrightarrow>
            (\<exists>m r F'.
               process_route_json_file E p d fmt (snd (makedirs E F d)) = ((m, Inr r), F') \<and>
               process_main E p d fmt F =
                 ((m @ [if r \<noteq> None then ProcessingComplete else ProcessingFailed], Inr ()), F') \<and>
               d \<in> dirs F' \<and>
               ((snd (import_json_data E p) = Inr None \<or>
                 (\<exists>g. snd (import_json_data E p) = Inr (Some g) \<and>
                      snd (process_route_features E g p) = Inr None) \<longrightarrow>
                   r = None \<and> files F' = files F) \<and>
                (\<not> (snd (import_json_data E p) = Inr None \<or>
                    (\<exists>g. snd (import_json_data E p) = Inr (Some g) \<and>
                         snd (process_route_features E g p) = Inr None)) \<and>
                 write_err E (d, splitext_root (basename p) @ ''_'' @ now E @ ''.'' @ fmt) = None \<longrightarrow>
                   (\<exists>content.
                       r = Some (OutputFile (d, splitext_root (basename p) @ ''_'' @ now E @ ''.'' @ fmt)) \<and>
                       files F' =
                         (files F)((d, splitext_root (basename p) @ ''_'' @ now E @ ''.'' @ fmt) \<mapsto> content))) \<and>
                (\<not> (snd (import_json_data E p) = Inr None \<or>
                    (\<exists>g. snd (import_json_data E p) = Inr (Some g) \<and>
                         snd (process_route_features E g p) = Inr None)) \<and>
                 write_err E (d, splitext_root (basename p) @ ''_'' @ now E @ ''.'' @ fmt) \<noteq> None \<longrightarrow>
                   r = None \<and>
                   (\<forall>q. q \<noteq> (d, splitext_root (basename p) @ ''_'' @ now E @ ''.'' @ fmt) \<longrightarrow>
                        files F' q = files F q)))))"
proof (intro conjI allI impI)
  fix e assume "makedirs_err E d = Some e"
  then show "process_main E p d fmt F = (([], Inl e), F)"
    by (simp add: process_main_def makedirs_def)
next
  assume mk: "makedirs_err E d = None"
  define F0 where "F0 = snd (makedirs E F d)"
  define name where "name = splitext_root (basename p) @ ''_'' @ now E @ ''.'' @ fmt"
  have d: "d \<in> dirs F0" and f: "files F0 = files F"
    using mk by (simp_all add: makedirs_def F0_def)
  obtain m1 ri where i: "import_json_data E p = (m1, Inr ri)"
    using import_never_raises by blast
  have "\<exists>m r F'.
               process_route_json_file E p d fmt F0 = ((m, Inr r), F') \<and>
               d \<in> dirs F' \<and>
               ((snd (import_json_data E p) = Inr None \<or>
                 (\<exists>g. snd (import_json_data E p) = Inr (Some g) \<and>
                      snd (process_route_features E g p) = Inr None) \<longrightarrow>
                   r = None \<and> files F' = files F) \<and>
                (\<not> (snd (import_json_data E p) = Inr None \<or>
                    (\<exists>g. snd (import_json_data E p) = Inr (Some g) \<and>
                         snd (process_route_features E g p) = Inr None)) \<and>
                 write_err E (d, name) = None \<longrightarrow>
                   (\<exists>content. r = Some (OutputFile (d, name)) \<and>
                       files F' = (files F)((d, name) \<mapsto> content))) \<and>
                (\<not> (snd (import_json_data E p) = Inr None \<or>
                    (\<exists>g. snd (import_json_data E p) = Inr (Some g) \<and>
                         snd (process_route_features E g p) = Inr None)) \<and>
                 write_err E (d, name) \<noteq> None \<longrightarrow>
                   r = None \<and> (\<forall>q. q \<noteq> (d, name) \<longrightarrow> files F' q = files F q)))"
  proof (cases ri)
    case None
    with i have n: "snd (import_json_data E p) = Inr None" by simp
    from pipeline_import_none[OF n, of d fmt F0] obtain m where
      "process_route_json_file E p d fmt F0 = ((m, Inr None), F0)" by blast
    with n d f show ?thesis by simp
  next
    case (Some g)
    with i have s: "snd (import_json_data E p) = Inr (Some g)" by simp
    obtain m2 rp where pr: "process_route_features E g p = (m2, Inr rp)"
      using process_never_raises by blast
    show ?thesis
    proof (cases rp)
      case None
      with pr have n: "snd (process_route_features E g p) = Inr None" by simp
      from pipeline_process_none[OF s n, of d fmt F0] obtain m where
        "process_route_json_file E p d fmt F0 = ((m, Inr None), F0)" by blast
      with s n d f show ?thesis by simp
    next
      case (Some result)
      with pr have n: "snd (process_route_features E g p) = Inr (Some result)" by simp
      show ?thesis
      proof (cases "write_err E (d, name)")
        case None
        then have w: "write_err E (d, splitext_root (basename p) @ ''_'' @ now E @ ''.'' @ fmt) = None"
          by (simp add: name_def)
        from pipeline_written[OF s n d fmt w] obtain m content where
          "process_route_json_file E p d fmt F0 =
             ((m, Inr (Some (OutputFile (d, name)))), F0\<lparr>files := (files F0)((d, name) \<mapsto> content)\<rparr>)"
          unfolding name_def by blast
        with s n d f None show ?thesis
          by (simp only: exI[of _ content] simp_thms) auto
      next
        case (Some el)
        obtain e left where el: "el = (e, left)" by (cases el)
        with Some have w: "write_err E (d, splitext_root (basename p) @ ''_'' @ now E @ ''.'' @ fmt) = Some (e, left)"
          by (simp add: name_def)
        from pipeline_write_raises[OF s n d fmt w] obtain m where
          "process_route_json_file E p d fmt F0 =
             ((m, Inr None), F0\<lparr>files := (files F0)((d, name) := left)\<rparr>)"
          unfolding name_def by blast
        with s n d f Some show ?thesis by simp
      qed
    qed
  qed
  then obtain m r F' where run: "process_route_json_file E p d fmt F0 = ((m, Inr r), F')"
    and rest: "d \<in> dirs F' \<and>
               ((snd (import_json_data E p) = Inr None \<or>
                 (\<exists>g. snd (import_json_data E p) = Inr (Some g) \<and>
                      snd (process_route_features E g p) = Inr None) \<longrightarrow>
                   r = None \<and> files F' = files F) \<and>
                (\<not> (snd (import_json_data E p) = Inr None \<or>
                    (\<exists>g. snd (import_json_data E p) = Inr (Some g) \<and>
                         snd (process_route_features E g p) = Inr None)) \<and>
                 write_err E (d, name) = None \<longrightarrow>
                   (\<exists>content. r = Some (OutputFile (d, name)) \<and>
                       files F' = (files F)((d, name) \<mapsto> content))) \<and>
                (\<not> (snd (import_json_data E p) = Inr None \<or>
                    (\<exists>g. snd (import_json_data E p) = Inr (Some g) \<and>
                         snd (process_route_features E g p) = Inr None)) \<and>
                 write_err E (d, name) \<noteq> None \<longrightarrow>
                   r = None \<and> (\<forall>q. q \<noteq> (d, name) \<longrightarrow> files F' q = files F q)))"
    by blast
  from main_after_makedirs[OF mk run[unfolded F0_def]] run rest
  show "\<exists>m r F'.
               process_route_json_file E p d fmt (snd (makedirs E F d)) = ((m, Inr r), F') \<and>
               process_main E p d fmt F =
                 ((m @ [if r \<noteq> None then ProcessingComplete else ProcessingFailed], Inr ()), F') \<and>
               d \<in> dirs F' \<and>
               ((snd (import_json_data E p) = Inr None \<or>
                 (\<exists>g. snd (import_json_data E p) = Inr (Some g) \<and>
                      snd (process_route_features E g p) = Inr None) \<longrightarrow>
                   r = None \<and> files F' = files F) \<and>
                (\<not> (snd (import_json_data E p) = Inr None \<or>
                    (\<exists>g. snd (import_json_data E p) = Inr (Some g) \<and>
                         snd (process_route_features E g p) = Inr None)) \<and>
                 write_err E (d, splitext_root (basename p) @ ''_'' @ now E @ ''.'' @ fmt) = None \<longrightarrow>
                   (\<exists>content.
                       r = Some (OutputFile (d, splitext_root (basename p) @ ''_'' @ now E @ ''.'' @ fmt)) \<and>
                       files F' =
                         (files F)((d, splitext_root (basename p) @ ''_'' @ now E @ ''.'' @ fmt) \<mapsto> content))) \<and>
                (\<not> (snd (import_json_data E p) = Inr None \<or>
                    (\<exists>g. snd (import_json_data E p) = Inr (Some g) \<and>
                         snd (process_route_features E g p) = Inr None)) \<and>
                 write_err E (d, splitext_root (basename p) @ ''_'' @ now E @ ''.'' @ fmt) \<noteq> None \<longrightarrow>
                   r = None \<and>
                   (\<forall>q. q \<noteq> (d, splitext_root (basename p) @ ''_'' @ now E @ ''.'' @ fmt) \<longrightarrow>
                        files F' q = files F q)))"
    unfolding F0_def name_def by blast
qed

theorem exporter_outcomes_witness:
  "\<exists>m content F'.
     process_route_json_file (demo_env scenario_doc) ''data/routes.json'' ''out'' ''geojson''
         (snd (makedirs (demo_env scenario_doc) empty_fs ''out'')) =
       ((m, Inr (Some (OutputFile (''out'', ''routes_20250101_120000.geojson'')))), F') \<and>
     process_main (demo_env scenario_doc) ''data/routes.json'' ''out'' ''geojson'' empty_fs =
       ((m @ [ProcessingComplete], Inr ()), F') \<and>
     ''out'' \<in> dirs F' \<and>
     files F' = (files empty_fs)((''out'', ''routes_20250101_120000.geojson'') \<mapsto> content)"
proof -
  have h1: "snd (import_json_data (demo_env scenario_doc) ''data/routes.json'') =
           Inr (Some \<lparr>rows = [\<lparr>attrs = [(''street'', JStr ''Main St''), (''type'', JStr ''Cycle Lane'')],
                   geometry = Some scenario_line\<rparr>], crs = 27700\<rparr>)"
    by (subst scenario_import) (simp_all add: demo_env_def)
  have h2: "snd (process_route_features (demo_env scenario_doc) \<lparr>rows = [\<lparr>attrs = [(''street'', JStr ''Main St''), (''type'', JStr ''Cycle Lane'')],
                   geometry = Some scenario_line\<rparr>], crs = 27700\<rparr> ''data/routes.json'') =
        Inr (Some \<lparr>rows = [\<lparr>attrs = [(''street'', JStr ''Main St''), (''type'', JStr ''Cycle Lane''),
                   (''route_length_m'', JNum (sqrt 20000)), (''source_file'', JStr (basename ''data/routes.json''))],
                   geometry = Some (affine_geom scenario_line)\<rparr>], crs = 4326\<rparr>)"
    by (subst scenario_process[where g' = "affine_geom scenario_line"]) (simp_all add: demo_env_def)
  have ok: "\<not> (snd (import_json_data (demo_env scenario_doc) ''data/routes.json'') = Inr None \<or>
      (\<exists>g. snd (import_json_data (demo_env scenario_doc) ''data/routes.json'') = Inr (Some g) \<and>
           snd (process_route_features (demo_env scenario_doc) g ''data/routes.json'') = Inr None))"
    using h2 by (simp add: h1)
  have fmt: "''geojson'' = ''geojson'' \<or> ''geojson'' = ''csv''" by simp
  have mk: "makedirs_err (demo_env scenario_doc) ''out'' = None" by (simp add: demo_env_def)
  have nm: "splitext_root (basename ''data/routes.json'') @ ''_'' @ now (demo_env scenario_doc) @ ''.'' @ ''geojson'' =
            ''routes_20250101_120000.geojson''"
    by (simp add: splitext_root_def basename_def demo_env_def)
  have w: "write_err (demo_env scenario_doc) (''out'', ''routes_20250101_120000.geojson'') = None"
    by (simp add: demo_env_def)
  from exporter_outcomes[OF fmt, of "demo_env scenario_doc" "''out''" "''data/routes.json''" empty_fs,
      THEN conjunct2, rule_format, OF mk]
  obtain m r F' where
    run: "process_route_json_file (demo_env scenario_doc) ''data/routes.json'' ''out'' ''geojson''
         (snd (makedirs (demo_env scenario_doc) empty_fs ''out'')) = ((m, Inr r), F')"
    and mn: "process_main (demo_env scenario_doc) ''data/routes.json'' ''out'' ''geojson'' empty_fs =
       ((m @ [if r \<noteq> None then ProcessingComplete else ProcessingFailed], Inr ()), F')"
    and d: "''out'' \<in> dirs F'"
    and wr: "\<not> (snd (import_json_data (demo_env scenario_doc) ''data/routes.json'') = Inr None \<or>
                    (\<exists>g. snd (import_json_data (demo_env scenario_doc) ''data/routes.json'') = Inr (Some g) \<and>
                         snd (process_route_features (demo_env scenario_doc) g ''data/routes.json'') = Inr None)) \<and>
                 write_err (demo_env scenario_doc) (''out'', splitext_root (basename ''data/routes.json'') @ ''_'' @
                    now (demo_env scenario_doc) @ ''.'' @ ''geojson'') = None \<longrightarrow>
                   (\<exists>content.
                       r = Some (OutputFile (''out'', splitext_root (basename ''data/routes.json'') @ ''_'' @
                          now (demo_env scenario_doc) @ ''.'' @ ''geojson'')) \<and>
                       files F' =
                         (files empty_fs)((''out'', splitext_root (basename ''data/routes.json'') @ ''_'' @
                            now (demo_env scenario_doc) @ ''.'' @ ''geojson'') \<mapsto> content))"
    by blast
  from wr ok w obtain content where
    "r = Some (OutputFile (''out'', ''routes_20250101_120000.geojson''))"
    "files F' = (files empty_fs)((''out'', ''routes_20250101_120000.geojson'') \<mapsto> content)"
    unfolding nm by blast
  with run mn d show ?thesis by auto
qed

text \<open>
  The import and the processing of the scenario document succeed, the write raises: the
  call returns \<^verbatim>\<open>None\<close> and no file is written.
\<close>

theorem failed_write_counterexample:
  "(\<exists>g result. snd (import_json_data fail_write_env ''data/routes.json'') = Inr (Some g) \<and>
       snd (process_route_features fail_write_env g ''data/routes.json'') = Inr (Some result)) \<and>
   snd (fst (process_route_json_file fail_write_env ''data/routes.json'' ''out'' ''geojson''
               (snd (makedirs fail_write_env empty_fs ''out'')))) = Inr None \<and>
   files (snd (process_route_json_file fail_write_env ''data/routes.json'' ''out'' ''geojson''
               (snd (makedirs fail_write_env empty_fs ''out'')))) = Map.empty"
proof -
  have r: "read_json fail_write_env ''data/routes.json'' = Inr scenario_doc"
    and ff: "from_features fail_write_env = gpd_from_features"
    and o: "osr_setup fail_write_env = None"
    and rp: "reproject fail_write_env 27700 4326 scenario_line = Inr (affine_geom scenario_line)"
    by (simp_all add: fail_write_env_def demo_env_def)
  note h1 = scenario_import[OF r ff]
  note h2 = scenario_process[OF o rp, of "''data/routes.json''"]
  have s1: "snd (import_json_data fail_write_env ''data/routes.json'') =
           Inr (Some \<lparr>rows = [\<lparr>attrs = [(''street'', JStr ''Main St''), (''type'', JStr ''Cycle Lane'')],
                   geometry = Some scenario_line\<rparr>], crs = 27700\<rparr>)"
    by (simp add: h1)
  have s2: "snd (process_route_features fail_write_env \<lparr>rows = [\<lparr>attrs = [(''street'', JStr ''Main St''), (''type'', JStr ''Cycle Lane'')],
                   geometry = Some scenario_line\<rparr>], crs = 27700\<rparr> ''data/routes.json'') =
        Inr (Some \<lparr>rows = [\<lparr>attrs = [(''street'', JStr ''Main St''), (''type'', JStr ''Cycle Lane''),
                   (''route_length_m'', JNum (sqrt 20000)), (''source_file'', JStr (basename ''data/routes.json''))],
                   geometry = Some (affine_geom scenario_line)\<rparr>], crs = 4326\<rparr>)"
    by (simp add: h2)
  have d: "''out'' \<in> dirs (snd (makedirs fail_write_env empty_fs ''out''))"
    by (simp add: makedirs_def fail_write_env_def demo_env_def)
  have fmt: "''geojson'' = ''geojson'' \<or> ''geojson'' = ''csv''" by simp
  have w: "write_err fail_write_env (''out'', splitext_root (basename ''data/routes.json'') @ ''_'' @
             now fail_write_env @ ''.'' @ ''geojson'') = Some (OSError, None)"
    by (simp add: fail_write_env_def)
  from pipeline_write_raises[OF s1 s2 d fmt w] obtain m where
    run: "process_route_json_file fail_write_env ''data/routes.json'' ''out'' ''geojson''
            (snd (makedirs fail_write_env empty_fs ''out'')) =
          ((m, Inr None),
           (snd (makedirs fail_write_env empty_fs ''out''))\<lparr>files :=
              (files (snd (makedirs fail_write_env empty_fs ''out'')))
                ((''out'', splitext_root (basename ''data/routes.json'') @ ''_'' @
                   now fail_write_env @ ''.'' @ ''geojson'') := None)\<rparr>)"
    by blast
  have e: "files (snd (makedirs fail_write_env empty_fs ''out'')) = Map.empty"
    by (simp add: makedirs_def fail_write_env_def demo_env_def empty_fs_def)
  from s1 s2 have "\<exists>g result. snd (import_json_data fail_write_env ''data/routes.json'') = Inr (Some g) \<and>
       snd (process_route_features fail_write_env g ''data/routes.json'') = Inr (Some result)"
    by blast
  then show ?thesis
    by (simp add: run e)
qed

section \<open>Properties of the attribute mapping\<close>

lemma py_setattr_other:
  "py_setattr E mc m key val = Inr m' \<Longrightarrow> k \<noteq> key \<Longrightarrow> m' k = m k"
  by (auto simp: py_setattr_def split: if_splits option.splits)



lemma set_attributes_geometry:
  "set_attributes E mc items m = Inr m' \<Longrightarrow> m' ''geometry'' = m ''geometry''"
proof (induction items arbitrary: m)
  case Nil
  then show ?case by simp
next
  case (Cons a items)
  obtain key val where a: "a = (key, val)" by (cases a)
  show ?case
    using Cons.prems a
    by (auto split: if_splits sum.splits dest!: Cons.IH dest: py_setattr_other[where k = "''geometry''"])
qed






lemma set_attributes_total:
  assumes "\<forall>k \<in> set (map fst items). \<not> other_attr E k" and "''route_type'' \<in> set mc"
  shows "\<exists>m'. set_attributes E mc items m = Inr m'"
  using assms(1)
proof (induction items arbitrary: m)
  case Nil
  show ?case by simp
next
  case (Cons a items)
  obtain key val where a: "a = (key, val)" by (cases a)
  from Cons.prems a have k: "\<not> other_attr E key" and r: "\<forall>k \<in> set (map fst items). \<not> other_attr E k"
    by simp_all
  show ?case
    using Cons.IH[OF r] a k assms(2)
    by (auto simp: hasattr_def py_setattr_def)
qed

lemma row_to_model_geometry_some:
  "geometry r = Some g \<Longrightarrow> ''geometry'' \<in> set mc \<Longrightarrow> row_to_model E mc r = Inr m \<Longrightarrow>
   m ''geometry'' = Some (JStr (''SRID=4326;'' @ wkt_dumps E g))"
  by (auto simp: row_to_model_def hasattr_def py_setattr_def Let_def split: sum.splits)

lemma row_to_model_geometry_none:
  "geometry r = None \<Longrightarrow> row_to_model E mc r = Inr m \<Longrightarrow> m ''geometry'' = None"
  by (auto simp: row_to_model_def split: sum.splits dest: set_attributes_geometry)


lemma row_to_model_total:
  assumes "\<forall>k \<in> set (map fst (attrs r)). \<not> other_attr E k"
  shows "\<exists>m. row_to_model E CyclingRoute r = Inr m"
proof -
  have rt: "''route_type'' \<in> set CyclingRoute" and ge: "''geometry'' \<in> set CyclingRoute"
    by (simp_all add: CyclingRoute_def)
  from set_attributes_total[OF assms rt] obtain m0 where
    "set_attributes E CyclingRoute (attrs r) Map.empty = Inr m0" by blast
  with ge show ?thesis
    by (cases "geometry r") (simp_all add: row_to_model_def hasattr_def py_setattr_def Let_def)
qed




text \<open>
  Claim C3, as amended. When a row is mapped to a record: a row with a geometry gives a
  record whose geometry is the text \<^verbatim>\<open>SRID=4326;\<close> followed by the well-known text of
  the row's geometry; a row without a geometry gives a record without one. A row none of
  whose cells names another attribute of the record is mapped.
\<close>

theorem geometry_tagged_when_present:
  "(\<forall>m. row_to_model E CyclingRoute r = Inr m \<longrightarrow>
      (\<forall>g. geometry r = Some g \<longrightarrow>
         m ''geometry'' = Some (JStr (''SRID=4326;'' @ wkt_dumps E g))) \<and>
      (geometry r = None \<longrightarrow> m ''geometry'' = None)) \<and>
   ((\<forall>k \<in> set (map fst (attrs r)). \<not> other_attr E k) \<longrightarrow>
      (\<exists>m. row_to_model E CyclingRoute r = Inr m))"
proof (intro conjI allI impI)
  fix m g assume m: "row_to_model E CyclingRoute r = Inr m" and g: "geometry r = Some g"
  have "''geometry'' \<in> set CyclingRoute" by (simp add: CyclingRoute_def)
  from row_to_model_geometry_some[OF g this m]
  show "m ''geometry'' = Some (JStr (''SRID=4326;'' @ wkt_dumps E g))" .
next
  fix m assume "row_to_model E CyclingRoute r = Inr m" and "geometry r = None"
  then show "m ''geometry'' = None" by (intro row_to_model_geometry_none)
next
  assume "\<forall>k \<in> set (map fst (attrs r)). \<not> other_attr E k"
  then show "\<exists>m. row_to_model E CyclingRoute r = Inr m" by (rule row_to_model_total)
qed

theorem geometry_tagged_when_present_witness:
  "(\<exists>m. row_to_model (demo_env JNull) CyclingRoute
          \<lparr>attrs = [(''street'', JStr ''High St'')], geometry = Some (Point (0, 0))\<rparr> = Inr m \<and>
        m ''geometry'' = Some (JStr ''SRID=4326;GEOMETRY'')) \<and>
   (\<exists>m. row_to_model (demo_env JNull) CyclingRoute
          \<lparr>attrs = [(''street'', JStr ''Low Rd'')], geometry = None\<rparr> = Inr m \<and>
        m ''geometry'' = None)"
proof -
  let ?a = "\<lparr>attrs = [(''street'', JStr ''High St'')], geometry = Some (Point (0, 0))\<rparr>"
  let ?b = "\<lparr>attrs = [(''street'', JStr ''Low Rd'')], geometry = None\<rparr>"
  have w: "wkt_dumps (demo_env JNull) (Point (0, 0)) = ''GEOMETRY''" by (simp add: demo_env_def)
  have oa: "\<forall>k \<in> set (map fst (attrs ?a)). \<not> other_attr (demo_env JNull) k"
    and ob: "\<forall>k \<in> set (map fst (attrs ?b)). \<not> other_attr (demo_env JNull) k"
    by (simp_all add: demo_env_def)
  note ta = geometry_tagged_when_present[of "demo_env JNull" ?a]
  note tb = geometry_tagged_when_present[of "demo_env JNull" ?b]
  from ta[THEN conjunct2] oa obtain ma where ma: "row_to_model (demo_env JNull) CyclingRoute ?a = Inr ma"
    by blast
  from tb[THEN conjunct2] ob obtain mb where mb: "row_to_model (demo_env JNull) CyclingRoute ?b = Inr mb"
    by blast
  from ta[THEN conjunct1] ma have "m ''geometry'' = Some (JStr (''SRID=4326;'' @ wkt_dumps (demo_env JNull) (Point (0, 0))))"
    if "m = ma" for m using that by simp
  then have 1: "ma ''geometry'' = Some (JStr ''SRID=4326;GEOMETRY'')" by (simp add: w)
  from tb[THEN conjunct1] mb have 2: "mb ''geometry'' = None" by simp
  from ma mb 1 2 show ?thesis by blast
qed

text \<open>
  A processed file whose only feature has no geometry is loaded: one record is
  inserted and committed, and its geometry is not set.
\<close>

theorem null_geometry_persisted_counterexample:
  "fst (load_processed_geojson_to_db (store_env null_table None) ''routes.geojson'' CyclingRoute
          64000 False empty_db) = Inr 1 \<and>
   map (map (\<lambda>m. m ''geometry''))
     (committed (snd (load_processed_geojson_to_db (store_env null_table None) ''routes.geojson''
          CyclingRoute 64000 False empty_db))) = [[None]]"
proof -
  have env: "read_file (store_env null_table None) ''routes.geojson'' = Inr null_table"
      "get_engine_err (store_env null_table None) = None"
      "create_all_err (store_env null_table None) = None"
      "inspect_err (store_env null_table None) = None"
      "close_err (store_env null_table None) = None"
      "\<And>d b. commit_err (store_env null_table None) d b = None"
    by (simp_all add: store_env_def demo_env_def)
  have nr: "rows null_table = [\<lparr>attrs = [(''street'', JStr ''Low Rd'')], geometry = None\<rparr>]"
    and nc: "crs null_table = 4326"
    by (simp_all add: null_table_def)
  have h: "hasattr (store_env null_table None) CyclingRoute ''street''"
    by (simp add: hasattr_def CyclingRoute_def)
  have s: "\<And>m v. py_setattr (store_env null_table None) CyclingRoute m ''street'' v = Inr (m(''street'' \<mapsto> v))"
    by (simp add: py_setattr_def CyclingRoute_def)
  have l: "load_processed_geojson_to_db (store_env null_table None) ''routes.geojson'' CyclingRoute
          64000 False empty_db =
        (Inr 1, \<lparr>committed = [[[''street'' \<mapsto> JStr ''Low Rd'']]], pending = [], closed = True,
                 out = [CreatedTables, TablesInSchema]\<rparr>)"
    by (simp add: load_processed_geojson_to_db_def load_body_def load_inner_def gdf_to_sql_model_def
      insert_body_def py_range_def create_tables_def new_session_def commit_def add_all_def
      close_session_def pr_def env nr nc empty_db_def row_to_model_def h s)
  show ?thesis by (simp add: l)
qed

section \<open>Properties of the batch insert\<close>

lemma collect_length: "collect f xs = Inr ys \<Longrightarrow> length ys = length xs"
  by (induction xs arbitrary: ys) (auto split: sum.splits)

lemma collect_append:
  "collect f (xs @ ys) =
     (case collect f xs of
        Inl e \<Rightarrow> Inl e
      | Inr a \<Rightarrow> (case collect f ys of Inl e \<Rightarrow> Inl e | Inr b \<Rightarrow> Inr (a @ b)))"
  by (induction xs) (auto split: sum.splits)

lemma collect_total:
  "(\<And>x. x \<in> set xs \<Longrightarrow> \<exists>y. f x = Inr y) \<Longrightarrow> \<exists>ys. collect f xs = Inr ys"
proof (induction xs)
  case Nil
  show ?case by simp
next
  case (Cons x xs)
  then obtain y ys where "f x = Inr y" "collect f xs = Inr ys" by (meson list.set_intros)
  then show ?case by simp
qed

lemma batch_loop_char:
  "pending S = [] \<Longrightarrow> batch_loop E mc rs bs js n S = (res, S') \<Longrightarrow>
   \<exists>k bms. k \<le> length js \<and>
       list_all2 (\<lambda>i b. collect (row_to_model E mc) (take bs (drop i rs)) = Inr b) (take k js) bms \<and>
       committed S' = committed S @ bms \<and>
       (\<forall>n'. res = Inr n' \<longrightarrow> k = length js \<and> pending S' = [] \<and>
            n' = n + int (length (concat bms))) \<and>
       (\<forall>e. res = Inl e \<longrightarrow> k < length js \<and>
            (collect (row_to_model E mc) (take bs (drop (js ! k) rs)) = Inl e \<and> pending S' = [] \<or>
             (\<exists>b. collect (row_to_model E mc) (take bs (drop (js ! k) rs)) = Inr b \<and>
                  pending S' = b \<and> commit_err E (committed S') b = Some e)))"
proof (induction js arbitrary: n S)
  case Nil
  then show ?case by auto
next
  case (Cons i js)
  show ?case
  proof (cases "collect (row_to_model E mc) (take bs (drop i rs))")
    case (Inl e)
    with Cons.prems have "res = Inl e" "S' = S" by (auto simp: Let_def)
    with Inl Cons.prems(1) show ?thesis
      by (intro exI[of _ 0] exI[of _ "[]"]) simp
  next
    case (Inr bm)
    show ?thesis
    proof (cases "commit_err E (committed S) bm")
      case (Some e)
      with Inr Cons.prems have "res = Inl e" "S' = S\<lparr>pending := bm\<rparr>"
        by (auto simp: commit_def add_all_def Let_def)
      with Some Inr show ?thesis
        by (intro exI[of _ 0] exI[of _ "[]"]) simp
    next
      case None
      let ?S1 = "S\<lparr>committed := committed S @ [bm], pending := []\<rparr>"
      from None Inr Cons.prems have
        r: "batch_loop E mc rs bs js (n + int (length bm)) ?S1 = (res, S')"
        by (auto simp: commit_def add_all_def Let_def)
      have p: "pending ?S1 = []" by simp
      from Cons.IH[OF p r] obtain k bms where k: "k \<le> length js"
        "list_all2 (\<lambda>i b. collect (row_to_model E mc) (take bs (drop i rs)) = Inr b) (take k js) bms"
        "committed S' = committed ?S1 @ bms"
        "\<forall>n'. res = Inr n' \<longrightarrow> k = length js \<and> pending S' = [] \<and>
              n' = n + int (length bm) + int (length (concat bms))"
        "\<forall>e. res = Inl e \<longrightarrow> k < length js \<and>
            (collect (row_to_model E mc) (take bs (drop (js ! k) rs)) = Inl e \<and> pending S' = [] \<or>
             (\<exists>b. collect (row_to_model E mc) (take bs (drop (js ! k) rs)) = Inr b \<and>
                  pending S' = b \<and> commit_err E (committed S') b = Some e))"
        by blast
      show ?thesis
        using k Inr by (intro exI[of _ "Suc k"] exI[of _ "bm # bms"]) auto
    qed
  qed
qed

lemma concat_chunks:
  "concat (map (\<lambda>i. take bs (drop i rs)) (map (\<lambda>k. k * bs) [0 ..< j])) = take (j * bs) rs"
proof (induction j)
  case 0
  show ?case by simp
next
  case (Suc j)
  have "take (j * bs) rs @ take bs (drop (j * bs) rs) = take (j * bs + bs) rs"
    by (simp add: take_add)
  with Suc show ?case by (simp add: add.commute)
qed

lemma chunk_count:
  assumes "0 < bs"
  shows "k < (n + bs - 1) div bs \<longleftrightarrow> k * bs < (n::nat)"
proof -
  have "k < (n + bs - 1) div bs \<longleftrightarrow> Suc k \<le> (n + bs - 1) div bs" by auto
  also have "\<dots> \<longleftrightarrow> Suc k * bs \<le> n + bs - 1"
    using assms by (rule less_eq_div_iff_mult_less_eq)
  also have "\<dots> \<longleftrightarrow> k * bs < n"
    using assms by (cases bs) auto
  finally show ?thesis .
qed


lemma take_indices: "k \<le> c \<Longrightarrow> take k (map (\<lambda>j. j * bs) [0 ..< c]) = map (\<lambda>j. j * (bs::nat)) [0 ..< k]"
  by (simp add: take_map)

lemma collect_chunks:
  "list_all2 (\<lambda>j b. collect f (take bs (drop (j * bs) rs)) = Inr b) [0 ..< k] bms \<Longrightarrow>
   collect f (take (k * bs) rs) = Inr (concat bms)"
proof (induction k arbitrary: bms)
  case 0
  then show ?case by simp
next
  case (Suc k)
  from Suc.prems obtain us b where bms: "bms = us @ [b]"
    and us: "list_all2 (\<lambda>j b. collect f (take bs (drop (j * bs) rs)) = Inr b) [0 ..< k] us"
    and b: "collect f (take bs (drop (k * bs) rs)) = Inr b"
    by (auto simp: list_all2_append1 list_all2_Cons1)
  have "take (k * bs + bs) rs = take (k * bs) rs @ take bs (drop (k * bs) rs)"
    by (rule take_add)
  moreover have "Suc k * bs = k * bs + bs" by simp
  ultimately have "take (Suc k * bs) rs = take (k * bs) rs @ take bs (drop (k * bs) rs)"
    by (simp only:)
  then have "collect f (take (Suc k * bs) rs) = Inr (concat us @ b)"
    using Suc.IH[OF us] b by (simp only: collect_append sum.case)
  with bms show ?case by simp
qed

lemma chunk_member:
  assumes "list_all2 (\<lambda>j b. collect f (take bs (drop (j * bs) rs)) = Inr b) [0 ..< k] bms"
      and "b \<in> set bms"
  shows "\<exists>j < k. collect f (take bs (drop (j * bs) rs)) = Inr b"
proof -
  from assms(2) obtain q where q: "q < length bms" "b = bms ! q" by (auto simp: in_set_conv_nth)
  from assms(1) have l: "length bms = k" by (auto dest: list_all2_lengthD)
  from list_all2_nthD2[OF assms(1) q(1)] q l show ?thesis by auto
qed

lemma insert_body_pos:
  assumes p: "pending S = []" and B: "0 < B"
      and run: "insert_body E g mc B S = (res, S')"
  shows "\<exists>k bms.
           list_all2 (\<lambda>j b. collect (row_to_model E mc) (take (nat B) (drop (j * nat B) (rows g))) = Inr b)
             [0 ..< k] bms \<and>
           committed S' = committed S @ bms \<and>
           (\<forall>j < k. j * nat B < length (rows g)) \<and>
           (\<forall>n. res = Inr n \<longrightarrow> pending S' = [] \<and> length (rows g) \<le> k * nat B \<and>
                n = int (length (concat bms))) \<and>
           (\<forall>e. res = Inl e \<longrightarrow> k * nat B < length (rows g) \<and>
                (collect (row_to_model E mc) (take (nat B) (drop (k * nat B) (rows g))) = Inl e \<and>
                 pending S' = [] \<or>
                 (\<exists>b. collect (row_to_model E mc) (take (nat B) (drop (k * nat B) (rows g))) = Inr b \<and>
                      pending S' = b \<and> commit_err E (committed S') b = Some e)))"
proof -
  define bs where "bs = nat B"
  define c where "c = (length (rows g) + bs - 1) div bs"
  define js where "js = map (\<lambda>j. j * bs) [0 ..< c]"
  have bs: "0 < bs" using B by (simp add: bs_def)
  from run B have r: "batch_loop E mc (rows g) bs js 0 S = (res, S')"
    by (simp add: insert_body_def py_range_def js_def c_def bs_def)
  from batch_loop_char[OF p r] obtain k bms where k: "k \<le> length js"
    and la: "list_all2 (\<lambda>i b. collect (row_to_model E mc) (take bs (drop i (rows g))) = Inr b) (take k js) bms"
    and cm: "committed S' = committed S @ bms"
    and ok: "\<forall>n'. res = Inr n' \<longrightarrow> k = length js \<and> pending S' = [] \<and>
            n' = 0 + int (length (concat bms))"
    and er: "\<forall>e. res = Inl e \<longrightarrow> k < length js \<and>
            (collect (row_to_model E mc) (take bs (drop (js ! k) (rows g))) = Inl e \<and> pending S' = [] \<or>
             (\<exists>b. collect (row_to_model E mc) (take bs (drop (js ! k) (rows g))) = Inr b \<and>
                  pending S' = b \<and> commit_err E (committed S') b = Some e))"
    by blast
  have lj: "length js = c" by (simp add: js_def)
  have kc: "k \<le> c" using k lj by simp
  have tk: "take k js = map (\<lambda>j. j * bs) [0 ..< k]"
    unfolding js_def using kc by (rule take_indices)
  have cc: "length (rows g) \<le> c * bs"
    using chunk_count[OF bs, of c "length (rows g)"] by (simp add: c_def)
  have lt: "\<And>j. j < c \<Longrightarrow> j * bs < length (rows g)"
    using chunk_count[OF bs, of _ "length (rows g)"] by (simp add: c_def)
  have 1: "list_all2 (\<lambda>j b. collect (row_to_model E mc) (take bs (drop (j * bs) (rows g))) = Inr b)
             [0 ..< k] bms"
    using la unfolding tk by (simp add: list_all2_map1)
  have 2: "\<forall>j < k. j * bs < length (rows g)"
    using lt kc by auto
  have 3: "\<forall>n. res = Inr n \<longrightarrow> pending S' = [] \<and> length (rows g) \<le> k * bs \<and>
                n = int (length (concat bms))"
    using ok lj cc by auto
  have 4: "\<forall>e. res = Inl e \<longrightarrow> k * bs < length (rows g) \<and>
                (collect (row_to_model E mc) (take bs (drop (k * bs) (rows g))) = Inl e \<and>
                 pending S' = [] \<or>
                 (\<exists>b. collect (row_to_model E mc) (take bs (drop (k * bs) (rows g))) = Inr b \<and>
                      pending S' = b \<and> commit_err E (committed S') b = Some e))"
  proof (intro allI impI)
    fix e assume "res = Inl e"
    with er have a: "k < c"
      "collect (row_to_model E mc) (take bs (drop (js ! k) (rows g))) = Inl e \<and> pending S' = [] \<or>
             (\<exists>b. collect (row_to_model E mc) (take bs (drop (js ! k) (rows g))) = Inr b \<and>
                  pending S' = b \<and> commit_err E (committed S') b = Some e)"
      using lj by auto
    from a(1) have "js ! k = k * bs" by (simp add: js_def)
    with a lt[OF a(1)] show "k * bs < length (rows g) \<and>
                (collect (row_to_model E mc) (take bs (drop (k * bs) (rows g))) = Inl e \<and>
                 pending S' = [] \<or>
                 (\<exists>b. collect (row_to_model E mc) (take bs (drop (k * bs) (rows g))) = Inr b \<and>
                      pending S' = b \<and> commit_err E (committed S') b = Some e))"
      by simp
  qed
  from 1 cm 2 3 4 show ?thesis unfolding bs_def by blast
qed

lemma gdf_to_sql_model_link:
  assumes "insert_body E g mc B S = (r0, S0)" and "gdf_to_sql_model E g mc B S = (res, S')"
  shows "committed S' = committed S0 \<and>
         (\<forall>n. res = Inr n \<longrightarrow> r0 = Inr n \<and> S' = S0) \<and>
         (\<forall>e. res = Inl e \<longrightarrow> (\<exists>e0. r0 = Inl e0)) \<and>
         (\<forall>e. res = Inl e \<and> rollback_err E = None \<longrightarrow> r0 = Inl e \<and> pending S' = [])"
  using assms
  by (auto simp: gdf_to_sql_model_def rollback_def split: sum.splits option.splits)

lemma two_chunks: "0 < bs \<Longrightarrow> (Suc bs + bs - 1) div bs = (2::nat)"
  by simp

lemma two_batches:
  assumes B: "0 < B" and n: "length (rows g) = nat B + 1" and p: "pending S = []"
      and m1: "collect (row_to_model E mc) (take (nat B) (rows g)) = Inr b1"
      and m2: "collect (row_to_model E mc) (drop (nat B) (rows g)) = Inr b2"
      and c1: "commit_err E (committed S) b1 = None"
      and c2: "commit_err E (committed S @ [b1]) b2 = Some e"
      and rb: "rollback_err E = None"
  shows "gdf_to_sql_model E g mc B S =
           (Inl e, S\<lparr>committed := committed S @ [b1], pending := []\<rparr>)"
proof -
  have bs: "0 < nat B" using B by simp
  have r: "py_range (length (rows g)) B = Inr [0, nat B]"
    using B two_chunks[OF bs] by (simp add: py_range_def n upt_rec[of 0] upt_rec[of 1])
  have t: "take (nat B) (drop (nat B) (rows g)) = drop (nat B) (rows g)"
    using n bs by simp
  show ?thesis
    using p m1 m2 c1 c2 rb
    by (simp add: gdf_to_sql_model_def insert_body_def r commit_def add_all_def rollback_def t Let_def)
qed

text \<open>
  Claim C2. For a fresh session, \<^verbatim>\<open>gdf_to_sql_model\<close> with batch size \<open>B\<close> adds to
  the committed batches a list of new ones: each is not empty and has at most \<open>B\<close>
  records, and together they are the records of the first rows of the table, in order.
  When it returns, the count is the number of those records, and for a positive \<open>B\<close>
  they are the records of all the rows. When it raises and the rollback succeeds, nothing
  is left pending, the batches committed before stay committed, and the exception is the
  one of the range (for \<open>B = 0\<close>), of the mapping of the next batch, or of its commit.
  With \<open>B + 1\<close> rows, a first commit that succeeds and a second that fails, the
  exception is raised and the new batches are the single batch of the first \<open>B\<close> rows.
\<close>

theorem batches_committed_independently:
  assumes p: "pending S = []"
  shows "\<exists>res S' new k.
     gdf_to_sql_model E g mc B S = (res, S') \<and>
     committed S' = committed S @ new \<and>
     (\<forall>b \<in> set new. b \<noteq> [] \<and> int (length b) \<le> B) \<and>
     collect (row_to_model E mc) (take k (rows g)) = Inr (concat new) \<and>
     (\<forall>n. res = Inr n \<longrightarrow> n = int (length (concat new)) \<and>
          (0 < B \<longrightarrow> collect (row_to_model E mc) (rows g) = Inr (concat new))) \<and>
     (\<forall>e. res = Inl e \<and> rollback_err E = None \<longrightarrow>
          pending S' = [] \<and>
          (B = 0 \<and> e = ValueError \<or>
           0 < B \<and> k < length (rows g) \<and>
           (collect (row_to_model E mc) (take (nat B) (drop k (rows g))) = Inl e \<or>
            (\<exists>b. collect (row_to_model E mc) (take (nat B) (drop k (rows g))) = Inr b \<and>
                 commit_err E (committed S') b = Some e)))) \<and>
     (\<forall>b1 b2. 0 < B \<and> length (rows g) = nat B + 1 \<and> rollback_err E = None \<and>
        collect (row_to_model E mc) (take (nat B) (rows g)) = Inr b1 \<and>
        collect (row_to_model E mc) (drop (nat B) (rows g)) = Inr b2 \<and>
        commit_err E (committed S) b1 = None \<and>
        commit_err E (committed S @ [b1]) b2 \<noteq> None \<longrightarrow>
        (\<exists>e. res = Inl e) \<and> new = [b1] \<and> pending S' = [])"
proof -
  obtain res S' where run: "gdf_to_sql_model E g mc B S = (res, S')"
    by (cases "gdf_to_sql_model E g mc B S")
  obtain r0 S0 where ib: "insert_body E g mc B S = (r0, S0)"
    by (cases "insert_body E g mc B S")
  note link = gdf_to_sql_model_link[OF ib run]
  consider (zero) "B = 0" | (neg) "B < 0" | (pos) "0 < B" by linarith
  then show ?thesis
  proof cases
    case zero
    with ib have "r0 = Inl ValueError" "S0 = S" by (simp_all add: insert_body_def py_range_def)
    with link zero run show ?thesis
      by (intro exI[of _ res] exI[of _ S'] exI[of _ "[]"] exI[of _ 0]) auto
  next
    case neg
    with ib have "r0 = Inr 0" "S0 = S" by (simp_all add: insert_body_def py_range_def)
    with link neg run show ?thesis
      by (intro exI[of _ res] exI[of _ S'] exI[of _ "[]"] exI[of _ 0]) auto
  next
    case pos
    define bs where "bs = nat B"
    have bs: "0 < bs" using pos by (simp add: bs_def)
    from insert_body_pos[OF p pos ib] obtain kb new where
      la: "list_all2 (\<lambda>j b. collect (row_to_model E mc) (take bs (drop (j * bs) (rows g))) = Inr b)
             [0 ..< kb] new"
      and cm: "committed S0 = committed S @ new"
      and lt: "\<forall>j < kb. j * bs < length (rows g)"
      and ok: "\<forall>n. r0 = Inr n \<longrightarrow> pending S0 = [] \<and> length (rows g) \<le> kb * bs \<and>
                n = int (length (concat new))"
      and er: "\<forall>e. r0 = Inl e \<longrightarrow> kb * bs < length (rows g) \<and>
                (collect (row_to_model E mc) (take bs (drop (kb * bs) (rows g))) = Inl e \<and>
                 pending S0 = [] \<or>
                 (\<exists>b. collect (row_to_model E mc) (take bs (drop (kb * bs) (rows g))) = Inr b \<and>
                      pending S0 = b \<and> commit_err E (committed S0) b = Some e))"
      unfolding bs_def by blast
    have 1: "committed S' = committed S @ new"
      using link cm by simp
    have 2: "\<forall>b \<in> set new. b \<noteq> [] \<and> int (length b) \<le> B"
    proof
      fix b assume "b \<in> set new"
      from chunk_member[OF la this] obtain j where j: "j < kb"
        and b: "collect (row_to_model E mc) (take bs (drop (j * bs) (rows g))) = Inr b"
        by blast
      from lt j have "j * bs < length (rows g)" by simp
      with bs collect_length[OF b] have "b \<noteq> []" by auto
      moreover have "length b \<le> bs" using collect_length[OF b] by simp
      then have "int (length b) \<le> B" using pos by (simp add: bs_def)
      ultimately show "b \<noteq> [] \<and> int (length b) \<le> B" by simp
    qed
    have 3: "collect (row_to_model E mc) (take (kb * bs) (rows g)) = Inr (concat new)"
      using la by (rule collect_chunks)
    have 4: "\<forall>n. res = Inr n \<longrightarrow> n = int (length (concat new)) \<and>
          (0 < B \<longrightarrow> collect (row_to_model E mc) (rows g) = Inr (concat new))"
    proof (intro allI impI)
      fix n assume "res = Inr n"
      with link have "r0 = Inr n" by blast
      with ok have "length (rows g) \<le> kb * bs" "n = int (length (concat new))" by auto
      with 3 show "n = int (length (concat new)) \<and>
          (0 < B \<longrightarrow> collect (row_to_model E mc) (rows g) = Inr (concat new))"
        by simp
    qed
    have 5: "\<forall>e. res = Inl e \<and> rollback_err E = None \<longrightarrow>
          pending S' = [] \<and>
          (B = 0 \<and> e = ValueError \<or>
           0 < B \<and> kb * bs < length (rows g) \<and>
           (collect (row_to_model E mc) (take (nat B) (drop (kb * bs) (rows g))) = Inl e \<or>
            (\<exists>b. collect (row_to_model E mc) (take (nat B) (drop (kb * bs) (rows g))) = Inr b \<and>
                 commit_err E (committed S') b = Some e)))"
    proof (intro allI impI)
      fix e assume a: "res = Inl e \<and> rollback_err E = None"
      with link have r: "r0 = Inl e" "pending S' = []" "committed S' = committed S0" by blast+
      with er have "kb * bs < length (rows g)"
        "collect (row_to_model E mc) (take bs (drop (kb * bs) (rows g))) = Inl e \<or>
         (\<exists>b. collect (row_to_model E mc) (take bs (drop (kb * bs) (rows g))) = Inr b \<and>
              commit_err E (committed S0) b = Some e)"
        by auto
      with r pos show "pending S' = [] \<and>
          (B = 0 \<and> e = ValueError \<or>
           0 < B \<and> kb * bs < length (rows g) \<and>
           (collect (row_to_model E mc) (take (nat B) (drop (kb * bs) (rows g))) = Inl e \<or>
            (\<exists>b. collect (row_to_model E mc) (take (nat B) (drop (kb * bs) (rows g))) = Inr b \<and>
                 commit_err E (committed S') b = Some e)))"
        by (simp add: bs_def)
    qed
    have 6: "\<forall>b1 b2. 0 < B \<and> length (rows g) = nat B + 1 \<and> rollback_err E = None \<and>
        collect (row_to_model E mc) (take (nat B) (rows g)) = Inr b1 \<and>
        collect (row_to_model E mc) (drop (nat B) (rows g)) = Inr b2 \<and>
        commit_err E (committed S) b1 = None \<and>
        commit_err E (committed S @ [b1]) b2 \<noteq> None \<longrightarrow>
        (\<exists>e. res = Inl e) \<and> new = [b1] \<and> pending S' = []"
    proof (intro allI impI)
      fix b1 b2
      assume a: "0 < B \<and> length (rows g) = nat B + 1 \<and> rollback_err E = None \<and>
        collect (row_to_model E mc) (take (nat B) (rows g)) = Inr b1 \<and>
        collect (row_to_model E mc) (drop (nat B) (rows g)) = Inr b2 \<and>
        commit_err E (committed S) b1 = None \<and>
        commit_err E (committed S @ [b1]) b2 \<noteq> None"
      then obtain e where e: "commit_err E (committed S @ [b1]) b2 = Some e" by auto
      from a have a1: "0 < B" and a2: "length (rows g) = nat B + 1" and a3: "rollback_err E = None"
        and a4: "collect (row_to_model E mc) (take (nat B) (rows g)) = Inr b1"
        and a5: "collect (row_to_model E mc) (drop (nat B) (rows g)) = Inr b2"
        and a6: "commit_err E (committed S) b1 = None"
        by simp_all
      from two_batches[OF a1 a2 p a4 a5 a6 e a3] run
      have "res = Inl e" and S': "S' = S\<lparr>committed := committed S @ [b1], pending := []\<rparr>"
        by simp_all
      from S' 1 have "new = [b1]" by simp
      with \<open>res = Inl e\<close> S' show "(\<exists>e. res = Inl e) \<and> new = [b1] \<and> pending S' = []"
        by simp
    qed
    from run 1 2 3 4 5 6 show ?thesis
      by (intro exI[of _ res] exI[of _ S'] exI[of _ new] exI[of _ "kb * bs"]) blast
  qed
qed

theorem batches_committed_independently_witness:
  "pending empty_db = [] \<and>
   (\<exists>e S' b1.
      gdf_to_sql_model (store_env three_table (Some 1)) three_table CyclingRoute 2 empty_db =
        (Inl e, S') \<and>
      collect (row_to_model (store_env three_table (Some 1)) CyclingRoute)
        (take 2 (rows three_table)) = Inr b1 \<and>
      length b1 = 2 \<and> committed S' = [b1] \<and> pending S' = [])"
proof -
  let ?E = "store_env three_table (Some 1)"
  have p: "pending empty_db = []" by (simp add: empty_db_def)
  have c0: "committed empty_db = []" by (simp add: empty_db_def)
  have tot: "\<And>r. r \<in> set (rows three_table) \<Longrightarrow> \<exists>m. row_to_model ?E CyclingRoute r = Inr m"
    by (rule row_to_model_total) (auto simp: three_table_def store_env_def demo_env_def)
  from collect_total[of "take 2 (rows three_table)" "row_to_model ?E CyclingRoute"] tot
  obtain b1 where b1: "collect (row_to_model ?E CyclingRoute) (take 2 (rows three_table)) = Inr b1"
    by (meson in_set_takeD)
  from collect_total[of "drop 2 (rows three_table)" "row_to_model ?E CyclingRoute"] tot
  obtain b2 where b2: "collect (row_to_model ?E CyclingRoute) (drop 2 (rows three_table)) = Inr b2"
    by (meson in_set_dropD)
  have l1: "length b1 = 2" using collect_length[OF b1] by (simp add: three_table_def)
  have pre: "0 < (2::int) \<and> length (rows three_table) = nat 2 + 1 \<and> rollback_err ?E = None \<and>
        collect (row_to_model ?E CyclingRoute) (take (nat 2) (rows three_table)) = Inr b1 \<and>
        collect (row_to_model ?E CyclingRoute) (drop (nat 2) (rows three_table)) = Inr b2 \<and>
        commit_err ?E (committed empty_db) b1 = None \<and>
        commit_err ?E (committed empty_db @ [b1]) b2 \<noteq> None"
    using b1 b2 by (simp add: store_env_def demo_env_def three_table_def empty_db_def)
  from batches_committed_independently[OF p, of ?E three_table CyclingRoute 2]
  obtain res S' new where
    run: "gdf_to_sql_model ?E three_table CyclingRoute 2 empty_db = (res, S')"
    and cm: "committed S' = committed empty_db @ new"
    and ex: "\<forall>b1 b2. 0 < (2::int) \<and> length (rows three_table) = nat 2 + 1 \<and> rollback_err ?E = None \<and>
        collect (row_to_model ?E CyclingRoute) (take (nat 2) (rows three_table)) = Inr b1 \<and>
        collect (row_to_model ?E CyclingRoute) (drop (nat 2) (rows three_table)) = Inr b2 \<and>
        commit_err ?E (committed empty_db) b1 = None \<and>
        commit_err ?E (committed empty_db @ [b1]) b2 \<noteq> None \<longrightarrow>
        (\<exists>e. res = Inl e) \<and> new = [b1] \<and> pending S' = []"
    by (elim exE conjE) (rule that, assumption+)
  from ex pre obtain e where "res = Inl e" and "new = [b1]" and "pending S' = []"
    by blast
  with run cm c0 p b1 l1 show ?thesis by auto
qed

section \<open>Properties of the per-file load\<close>

lemma batch_loop_count:
  "batch_loop E mc rs bs js n S = (Inr n', S') \<Longrightarrow> n \<le> n'"
proof (induction js arbitrary: n S)
  case Nil
  then show ?case by simp
next
  case (Cons i js)
  then show ?case
    by (auto simp: Let_def split: prod.splits option.splits sum.splits dest!: Cons.IH)
qed

lemma gdf_to_sql_model_count:
  assumes "gdf_to_sql_model E g mc B S = (Inr n, S')"
  shows "0 \<le> n"
proof -
  from assms have "insert_body E g mc B S = (Inr n, S')"
    by (auto simp: gdf_to_sql_model_def split: prod.splits sum.splits option.splits)
  then show ?thesis
    by (auto simp: insert_body_def split: sum.splits dest: batch_loop_count)
qed

lemma load_inner_count:
  assumes "load_inner E g mc B S = (Inr n, S')"
  shows "0 \<le> n"
proof (cases "gdf_to_sql_model E g mc B S")
  case (Pair r0 S0)
  show ?thesis
  proof (cases r0)
    case (Inl e)
    with Pair assms show ?thesis
      by (auto simp: load_inner_def rollback_def close_session_def split: option.splits)
  next
    case (Inr m)
    with Pair have "0 \<le> m" using gdf_to_sql_model_count by blast
    with Pair Inr assms show ?thesis
      by (auto simp: load_inner_def close_session_def split: option.splits)
  qed
qed

lemma load_inner_failed_insert:
  assumes "gdf_to_sql_model E g mc B S = (Inl e, S2)"
      and "load_inner E g mc B S = (res, S')"
  shows "res \<noteq> Inr n \<or> n = 0" and "committed S' = committed S2"
  using assms
  by (auto simp: load_inner_def rollback_def close_session_def pr_def split: option.splits)

lemma load_body_count:
  assumes "load_body E path mc B dr S = (Inr n, S')"
  shows "0 \<le> n"
  using assms
  by (auto simp: load_body_def split: sum.splits if_splits prod.splits option.splits
      dest: load_inner_count)


lemma load_result:
  "load_processed_geojson_to_db E path mc B dr S =
     (case load_body E path mc B dr S of
        (Inl e, S') \<Rightarrow> (Inr 0, pr (ErrorReadingFile e) S')
      | (Inr n, S') \<Rightarrow> (Inr n, S'))"
  by (simp add: load_processed_geojson_to_db_def)

lemma load_body_read_error:
  "read_file E path = Inl e \<Longrightarrow> load_body E path mc B dr S = (Inl e, S)"
  by (simp add: load_body_def)

lemma load_body_empty:
  "read_file E path = Inr g \<Longrightarrow> rows g = [] \<Longrightarrow>
   load_body E path mc B dr S = (Inr 0, pr (NoDataFound path) S)"
  by (simp add: load_body_def)

lemma load_body_crs_error:
  "read_file E path = Inr g \<Longrightarrow> rows g \<noteq> [] \<Longrightarrow> crs g \<noteq> 4326 \<Longrightarrow>
   to_crs E g 4326 = Inl e \<Longrightarrow> load_body E path mc B dr S = (Inl e, S)"
  by (simp add: load_body_def)

lemma load_body_insert:
  "read_file E path = Inr g \<Longrightarrow> rows g \<noteq> [] \<Longrightarrow> crs g = 4326 \<Longrightarrow>
   get_engine_err E = None \<Longrightarrow> create_tables E dr S = (None, S1) \<Longrightarrow>
   load_body E path mc B dr S = load_inner E g mc B (new_session S1)"
  by (simp add: load_body_def)

text \<open>
  Claim C10. The per-file load never raises and returns a count that is not negative.
  It returns 0 when the file cannot be read, when the table is empty, when the
  conversion of the reference system raises, and when the insert raises: then what the
  insert had committed before the exception stays committed.
\<close>

theorem load_never_raises:
  "\<exists>n S'.
     load_processed_geojson_to_db E path mc B dr S = (Inr n, S') \<and> 0 \<le> n \<and>
     (\<forall>e. read_file E path = Inl e \<longrightarrow> n = 0) \<and>
     (\<forall>g. read_file E path = Inr g \<and> rows g = [] \<longrightarrow> n = 0) \<and>
     (\<forall>g e. read_file E path = Inr g \<and> rows g \<noteq> [] \<and> crs g \<noteq> 4326 \<and>
            to_crs E g 4326 = Inl e \<longrightarrow> n = 0) \<and>
     (\<forall>g S1 e S2. read_file E path = Inr g \<and> rows g \<noteq> [] \<and> crs g = 4326 \<and>
            get_engine_err E = None \<and> create_tables E dr S = (None, S1) \<and>
            gdf_to_sql_model E g mc B (new_session S1) = (Inl e, S2) \<longrightarrow>
            n = 0 \<and> committed S' = committed S2)"
proof -
  obtain r0 S0 where lb: "load_body E path mc B dr S = (r0, S0)"
    by (cases "load_body E path mc B dr S")
  define n where "n = (case r0 of Inl e \<Rightarrow> 0 | Inr m \<Rightarrow> m)"
  define S' where "S' = (case r0 of Inl e \<Rightarrow> pr (ErrorReadingFile e) S0 | Inr m \<Rightarrow> S0)"
  have run: "load_processed_geojson_to_db E path mc B dr S = (Inr n, S')"
    by (simp add: load_result lb n_def S'_def split: sum.splits)
  have cm: "committed S' = committed S0"
    by (simp add: S'_def pr_def split: sum.splits)
  have nn: "0 \<le> n"
  proof (cases r0)
    case (Inl e)
    then show ?thesis by (simp add: n_def)
  next
    case (Inr m)
    with lb have "0 \<le> m" using load_body_count by blast
    with Inr show ?thesis by (simp add: n_def)
  qed
  have 1: "\<forall>e. read_file E path = Inl e \<longrightarrow> n = 0"
    using lb by (auto simp: load_body_read_error n_def)
  have 2: "\<forall>g. read_file E path = Inr g \<and> rows g = [] \<longrightarrow> n = 0"
    using lb by (auto simp: load_body_empty n_def)
  have 3: "\<forall>g e. read_file E path = Inr g \<and> rows g \<noteq> [] \<and> crs g \<noteq> 4326 \<and>
            to_crs E g 4326 = Inl e \<longrightarrow> n = 0"
    using lb by (auto simp: load_body_crs_error n_def)
  have 4: "\<forall>g S1 e S2. read_file E path = Inr g \<and> rows g \<noteq> [] \<and> crs g = 4326 \<and>
            get_engine_err E = None \<and> create_tables E dr S = (None, S1) \<and>
            gdf_to_sql_model E g mc B (new_session S1) = (Inl e, S2) \<longrightarrow>
            n = 0 \<and> committed S' = committed S2"
  proof (intro allI impI)
    fix g S1 e S2
    assume a: "read_file E path = Inr g \<and> rows g \<noteq> [] \<and> crs g = 4326 \<and>
            get_engine_err E = None \<and> create_tables E dr S = (None, S1) \<and>
            gdf_to_sql_model E g mc B (new_session S1) = (Inl e, S2)"
    then have "load_body E path mc B dr S = load_inner E g mc B (new_session S1)"
      by (intro load_body_insert) simp_all
    with lb have li: "load_inner E g mc B (new_session S1) = (r0, S0)" by simp
    from a have gi: "gdf_to_sql_model E g mc B (new_session S1) = (Inl e, S2)" by simp
    from load_inner_failed_insert[OF gi li] have "\<And>m. r0 \<noteq> Inr m \<or> m = 0"
      and "committed S0 = committed S2" by blast+
    then show "n = 0 \<and> committed S' = committed S2"
      using cm by (cases r0) (auto simp: n_def)
  qed
  from run nn 1 2 3 4 show ?thesis by blast
qed

theorem load_never_raises_witness:
  "\<exists>S' b1. load_processed_geojson_to_db (store_env three_table (Some 1)) ''routes.geojson''
            CyclingRoute 2 False empty_db = (Inr 0, S') \<and>
         collect (row_to_model (store_env three_table (Some 1)) CyclingRoute)
           (take 2 (rows three_table)) = Inr b1 \<and>
         length b1 = 2 \<and> committed S' = [b1]"
proof -
  let ?E = "store_env three_table (Some 1)"
  let ?S1 = "pr TablesInSchema (pr CreatedTables empty_db)"
  have tot: "\<And>r. r \<in> set (rows three_table) \<Longrightarrow> \<exists>m. row_to_model ?E CyclingRoute r = Inr m"
    by (rule row_to_model_total) (auto simp: three_table_def store_env_def demo_env_def)
  from collect_total[of "take 2 (rows three_table)" "row_to_model ?E CyclingRoute"] tot
  obtain b1 where b1: "collect (row_to_model ?E CyclingRoute) (take 2 (rows three_table)) = Inr b1"
    by (meson in_set_takeD)
  from collect_total[of "drop 2 (rows three_table)" "row_to_model ?E CyclingRoute"] tot
  obtain b2 where b2: "collect (row_to_model ?E CyclingRoute) (drop 2 (rows three_table)) = Inr b2"
    by (meson in_set_dropD)
  have l1: "length b1 = 2" using collect_length[OF b1] by (simp add: three_table_def)
  let ?S2 = "(new_session ?S1)\<lparr>committed := committed (new_session ?S1) @ [b1], pending := []\<rparr>"
  have gi: "gdf_to_sql_model ?E three_table CyclingRoute 2 (new_session ?S1) = (Inl DBError, ?S2)"
  proof (rule two_batches)
    show "collect (row_to_model ?E CyclingRoute) (take (nat 2) (rows three_table)) = Inr b1"
      using b1 by simp
    show "collect (row_to_model ?E CyclingRoute) (drop (nat 2) (rows three_table)) = Inr b2"
      using b2 by simp
  qed (simp_all add: store_env_def demo_env_def three_table_def empty_db_def new_session_def pr_def)
  have pre: "read_file ?E ''routes.geojson'' = Inr three_table \<and> rows three_table \<noteq> [] \<and>
      crs three_table = 4326 \<and> get_engine_err ?E = None \<and>
      create_tables ?E False empty_db = (None, ?S1) \<and>
      gdf_to_sql_model ?E three_table CyclingRoute 2 (new_session ?S1) = (Inl DBError, ?S2)"
    using gi by (simp add: store_env_def demo_env_def three_table_def create_tables_def)
  from load_never_raises[of ?E "''routes.geojson''" CyclingRoute 2 False empty_db]
  obtain n S' where
    run: "load_processed_geojson_to_db ?E ''routes.geojson'' CyclingRoute 2 False empty_db = (Inr n, S')"
    and f: "\<forall>g S1 e S2. read_file ?E ''routes.geojson'' = Inr g \<and> rows g \<noteq> [] \<and> crs g = 4326 \<and>
            get_engine_err ?E = None \<and> create_tables ?E False empty_db = (None, S1) \<and>
            gdf_to_sql_model ?E g CyclingRoute 2 (new_session S1) = (Inl e, S2) \<longrightarrow>
            n = 0 \<and> committed S' = committed S2"
    by blast
  from f pre have "n = 0 \<and> committed S' = committed ?S2" by blast
  then have "n = 0" and "committed S' = [b1]"
    by (simp_all add: new_session_def pr_def empty_db_def)
  with run b1 l1 show ?thesis by blast
qed

section \<open>Properties of the loading script\<close>

lemma calls_say: "calls (say m R) = calls R"
  by (simp add: say_def)

lemma calls_load_one: "calls (load_one E a f d R) = calls R @ [(f, d)]"
  by (simp add: load_one_def say_def split: prod.splits sum.splits)

lemma calls_dir_loop:
  "calls (dir_loop E a i fl R) =
     calls R @ map (\<lambda>(j, f). (f, drop_existing a \<and> j = 0)) (enumerate i fl)"
  by (induction fl arbitrary: i R) (simp_all add: Let_def calls_load_one calls_say)

lemma push_main_dir_mode:
  assumes "\<not> given (input_file a)" and "input_dir a = Some d" and "d \<noteq> []" and "isdir E d"
  shows "calls (push_main E a R) = calls (dir_loop E a 0 (glob_files E d (pattern a)) R)"
proof (cases "glob_files E d (pattern a) = []")
  case True
  with assms show ?thesis by (simp add: push_main_def given_def calls_say)
next
  case False
  with assms show ?thesis
    by (simp add: push_main_def given_def calls_say Let_def calls_dir_loop)
qed

text \<open>
  Claim C7. In directory mode the per-file load is called once for each matched file,
  in the order of the listing; the call for the first file carries the caller's drop flag
  and the call for every later file carries the flag false.
\<close>

theorem only_first_file_may_drop:
  assumes "\<not> given (input_file a)" and "input_dir a = Some d" and "d \<noteq> []" and "isdir E d"
      and "glob_files E d (pattern a) = fl"
  shows "calls (push_main E a R) =
           calls R @ map (\<lambda>(j, f). (f, drop_existing a \<and> j = 0)) (enumerate 0 fl) \<and>
         (\<forall>j. 0 < j \<and> j < length fl \<longrightarrow>
            calls (push_main E a R) ! (length (calls R) + j) = (fl ! j, False)) \<and>
         (0 < length fl \<longrightarrow>
            calls (push_main E a R) ! (length (calls R)) = (fl ! 0, drop_existing a))"
proof -
  have c: "calls (push_main E a R) =
           calls R @ map (\<lambda>(j, f). (f, drop_existing a \<and> j = 0)) (enumerate 0 fl)"
    using push_main_dir_mode[OF assms(1-4), of R] assms(5) by (simp add: calls_dir_loop)
  have n: "\<And>j. j < length fl \<Longrightarrow>
      calls (push_main E a R) ! (length (calls R) + j) = (fl ! j, drop_existing a \<and> j = 0)"
    unfolding c by (simp add: nth_append nth_enumerate_eq)
  from c n[of 0] n show ?thesis by auto
qed

theorem only_first_file_may_drop_witness:
  "calls (push_main dir_env dir_args empty_run) =
     [(''gen/a.geojson'', True), (''gen/b.geojson'', False), (''gen/c.geojson'', False)]"
proof -
  have 1: "\<not> given (input_file dir_args)" by (simp add: dir_args_def given_def)
  have 2: "input_dir dir_args = Some ''gen''" by (simp add: dir_args_def)
  have 3: "''gen'' \<noteq> []" by simp
  have 4: "isdir dir_env ''gen''" by (simp add: dir_env_def store_env_def demo_env_def)
  have 5: "glob_files dir_env ''gen'' (pattern dir_args) =
             [''gen/a.geojson'', ''gen/b.geojson'', ''gen/c.geojson'']"
    by (simp add: dir_env_def)
  from only_first_file_may_drop[OF 1 2 3 4 5, of empty_run, THEN conjunct1]
  show ?thesis by (simp add: empty_run_def dir_args_def)
qed

end
